theory Spec2Isabelle
  imports Complex_Main "HOL-Library.Word"
begin

section \<open>The SE2 search node and its motion table (node_se2.cpp)\<close>

text \<open>
  Conventions of the embedding.  A C++ \<open>float\<close> or \<open>double\<close> is read as the real number
  it stands for: rounding is left out, and every place where the IEEE computation would
  leave the finite numbers (a division by zero, \<open>asin\<close> outside \<open>[-1, 1]\<close>) is an explicit
  \<open>None\<close> of the model, never HOL's \<open>x / 0 = 0\<close> or an unspecified \<open>arcsin\<close>.
  \<open>int\<close> is \<open>32 word\<close> read signed, \<open>unsigned int\<close> a natural number.
  External collaborators (the A* engine, the smoother, the upsampler, the costmap's
  \<open>worldToMap\<close>, the parameter server) are parameters of the functions that call them.
\<close>

subsection \<open>Cell costs and the validity check\<close>

text \<open>
  The cost sentinels \<open>UNKNOWN\<close>, \<open>OCCUPIED\<close> and \<open>INSCRIBED\<close> are declared in a header that
  is not among the sources; \<open>isNodeValid\<close> takes them as a parameter.
\<close>

record cost_sentinels =
  UNKNOWN :: real
  OCCUPIED :: real
  INSCRIBED :: real

text \<open>\<open>std::numeric_limits<float>::max()\<close>.\<close>

definition FLT_MAX :: real where
  "FLT_MAX = (2 - 1 / 2 ^ 23) * 2 ^ 127"

type_synonym Pose = "real \<times> real \<times> real"

record NodeSE2 =
  parent :: "nat option"
  pose :: "Pose option"
  cell_cost :: real
  accumulated_cost :: real
  index :: nat
  was_visited :: bool
  is_queued :: bool

text \<open>The constructor \<open>NodeSE2(cost_in, index)\<close>; \<open>reset\<close> restores the same values.\<close>

definition new_NodeSE2 :: "8 word \<Rightarrow> nat \<Rightarrow> NodeSE2" where
  "new_NodeSE2 cost_in idx =
     \<lparr>parent = None, pose = None, cell_cost = real (unat cost_in),
      accumulated_cost = FLT_MAX, index = idx, was_visited = False, is_queued = False\<rparr>"

definition reset :: "NodeSE2 \<Rightarrow> 8 word \<Rightarrow> nat \<Rightarrow> NodeSE2" where
  "reset node cost idx =
     node\<lparr>parent := None, cell_cost := real (unat cost), accumulated_cost := FLT_MAX,
          index := idx, was_visited := False, is_queued := False\<rparr>"

definition isNodeValid :: "cost_sentinels \<Rightarrow> NodeSE2 \<Rightarrow> bool \<Rightarrow> bool" where
  "isNodeValid k node traverse_unknown =
     (let cost = cell_cost node in
      if cost = OCCUPIED k \<or> cost = INSCRIBED k then False
      else if cost = UNKNOWN k \<and> \<not> traverse_unknown then False
      else True)"

subsection \<open>Motion tables\<close>

record MotionTable =
  size_x :: nat
  num_angle_quantization :: nat
  projections :: "Pose list"

text \<open>
  The turning angle shared by \<open>initDubin\<close> and \<open>initReedsShepp\<close>: the raw angle
  \<open>2 asin(sqrt 2 / (2 R))\<close>, then the two-branch adjustment to the bin size.  The result is
  \<open>None\<close> where the floating-point computation is not finite: \<open>R = 0\<close> (division by zero),
  \<open>asin\<close> outside its domain (NaN), or zero bins (an infinite bin size).
\<close>

definition turning_angle :: "nat \<Rightarrow> real \<Rightarrow> real option" where
  "turning_angle num_angle_quantization_in min_turning_radius =
     (let sqrt_2 = sqrt 2 in
      if min_turning_radius = 0 \<or> num_angle_quantization_in = 0
         \<or> \<bar>sqrt_2 / (2 * min_turning_radius)\<bar> > 1
      then None
      else
        let angle = 2 * arcsin (sqrt_2 / (2 * min_turning_radius));
            bin_size = 2 * pi / real num_angle_quantization_in
        in Some (if angle < bin_size then bin_size
                 else if angle > bin_size then bin_size * real_of_int \<lceil>angle / bin_size\<rceil>
                 else angle))"

definition initDubin :: "nat \<Rightarrow> nat \<Rightarrow> real \<Rightarrow> MotionTable option" where
  "initDubin size_x_in num_angle_quantization_in min_turning_radius =
     (case turning_angle num_angle_quantization_in min_turning_radius of
        None \<Rightarrow> None
      | Some angle \<Rightarrow>
          let sqrt_2 = sqrt 2;
              delta_x = min_turning_radius * sin angle;
              delta_y = (min_turning_radius * cos angle) - min_turning_radius
          in Some \<lparr>size_x = size_x_in, num_angle_quantization = num_angle_quantization_in,
                   projections =
                     [(sqrt_2, 0, 0),
                      (delta_x, delta_y, angle),
                      (delta_x, - delta_y, - angle)]\<rparr>)"

definition initReedsShepp :: "nat \<Rightarrow> nat \<Rightarrow> real \<Rightarrow> MotionTable option" where
  "initReedsShepp size_x_in num_angle_quantization_in min_turning_radius =
     (case turning_angle num_angle_quantization_in min_turning_radius of
        None \<Rightarrow> None
      | Some angle \<Rightarrow>
          let sqrt_2 = sqrt 2;
              delta_x = min_turning_radius * sin angle;
              delta_y = (min_turning_radius * cos angle) - min_turning_radius
          in Some \<lparr>size_x = size_x_in, num_angle_quantization = num_angle_quantization_in,
                   projections =
                     [(sqrt_2, 0, 0),
                      (delta_x, delta_y, angle),
                      (delta_x, - delta_y, - angle),
                      (- sqrt_2, 0, 0),
                      (- delta_x, delta_y, angle),
                      (- delta_x, - delta_y, - angle)]\<rparr>)"

definition initBalkcomMason :: "nat \<Rightarrow> nat \<Rightarrow> MotionTable option" where
  "initBalkcomMason size_x_in num_angle_quantization_in =
     (if num_angle_quantization_in = 0 then None
      else
        let sqrt_2 = sqrt 2;
            delta_angle = 2 * pi / real num_angle_quantization_in
        in Some \<lparr>size_x = size_x_in, num_angle_quantization = num_angle_quantization_in,
                 projections =
                   [(sqrt_2, 0, 0),
                    (- sqrt_2, 0, 0),
                    (0, 0, delta_angle),
                    (0, 0, - delta_angle),
                    (sqrt_2, 0, delta_angle),
                    (- sqrt_2, 0, delta_angle),
                    (sqrt_2, 0, - delta_angle),
                    (- sqrt_2, 0, - delta_angle)]\<rparr>)"

text \<open>
  The motion models.  The enumeration is declared in a header that is not among the
  sources; its members are the ones the two source files name.
\<close>

datatype MotionModel = UNKNOWN_MODEL | VON_NEUMANN | MOORE | DUBIN | REEDS_SHEPP | BALKCOM_MASON

datatype exn = runtime_error string

definition initMotionModel ::
  "MotionModel \<Rightarrow> nat \<Rightarrow> nat \<Rightarrow> real \<Rightarrow> exn + MotionTable option" where
  "initMotionModel motion_model sx num_angle_quantization_in min_turning_radius =
     (case motion_model of
        DUBIN \<Rightarrow> Inr (initDubin sx num_angle_quantization_in min_turning_radius)
      | REEDS_SHEPP \<Rightarrow> Inr (initReedsShepp sx num_angle_quantization_in min_turning_radius)
      | BALKCOM_MASON \<Rightarrow> Inr (initBalkcomMason sx num_angle_quantization_in)
      | _ \<Rightarrow> Inl (runtime_error
          (''Invalid motion model for SE2 node. Please select between''
           @ '' Dubin (Ackermann forward only),''
           @ '' Reeds-Shepp (Ackermann forward and back),''
           @ '' or Balkcom-Mason (Differential drive and omnidirectional) models.'')))"

text \<open>The planar length of a primitive's displacement.\<close>

definition magnitude :: "Pose \<Rightarrow> real" where
  "magnitude p = (case p of (dx, dy, dth) \<Rightarrow> sqrt (dx\<^sup>2 + dy\<^sup>2))"

text \<open>
  The primitive list the specification gives for the Dubin model, written from its words:
  \<open>angle_raw = 2 asin(sqrt 2 / (2 r_min))\<close>, \<open>bin = 2 pi / n_angles\<close>, the angle is \<open>bin\<close> if
  \<open>angle_raw < bin\<close> and \<open>ceil(angle_raw / bin) bin\<close> otherwise.
\<close>

definition dubin_primitives_spec :: "nat \<Rightarrow> real \<Rightarrow> Pose list" where
  "dubin_primitives_spec n_angles r_min =
     (let angle_raw = 2 * arcsin (sqrt 2 / (2 * r_min));
          bin = 2 * pi / real n_angles;
          angle = (if angle_raw < bin then bin else real_of_int \<lceil>angle_raw / bin\<rceil> * bin);
          dx = r_min * sin angle;
          dy = r_min * cos angle - r_min
      in [(sqrt 2, 0, 0), (dx, dy, angle), (dx, - dy, - angle)])"

section \<open>The planner facade (smac_planner.cpp)\<close>

subsection \<open>Shared types\<close>

type_synonym Vector2d = "real \<times> real"

text \<open>
  Undefined behaviour the facade can reach: a floating-point value converted to
  \<open>unsigned int\<close> outside its range, and a vector indexed outside its bounds.
\<close>

datatype fault = FloatToUIntOutOfRange | IndexOutOfRange

datatype log = INFO string | WARN string | FATAL string

text \<open>
  IEEE division, kept inside the finite numbers: \<open>None\<close> stands for the infinity or NaN a
  zero divisor produces.
\<close>

definition fdiv :: "real \<Rightarrow> real \<Rightarrow> real option" where
  "fdiv a b = (if b = 0 then None else Some (a / b))"

text \<open>
  \<open>static_cast<unsigned int>\<close> of a floating-point value: truncation towards zero, defined
  only when the truncated value is representable.
\<close>

definition to_uint :: "real \<Rightarrow> fault + nat" where
  "to_uint v = (if - 1 < v \<and> v < 2 ^ 32 then Inr (nat \<lfloor>v\<rfloor>) else Inl FloatToUIntOutOfRange)"

definition INT_MAX :: "32 word" where
  "INT_MAX = 0x7FFFFFFF"

record Costmap2D =
  SizeInCellsX :: nat
  SizeInCellsY :: nat
  OriginX :: real
  OriginY :: real
  Resolution :: real
  CharMap :: "8 word list"

subsection \<open>removeHook\<close>

text \<open>
  Modelled from the spec: \<open>squaredDistance\<close> is declared in a header that is not among the
  sources; it is the squared Euclidean distance whose comparison the specification writes
  with norms.
\<close>

definition squaredDistance :: "Vector2d \<Rightarrow> Vector2d \<Rightarrow> real" where
  "squaredDistance p q = (fst p - fst q)\<^sup>2 + (snd p - snd q)\<^sup>2"

text \<open>\<open>(a + b) / 2.0\<close> on \<open>Eigen::Vector2d\<close>.\<close>

definition midpoint2 :: "Vector2d \<Rightarrow> Vector2d \<Rightarrow> Vector2d" where
  "midpoint2 a b = ((fst a + fst b) / 2, (snd a + snd b) / 2)"

text \<open>
  \<open>path.end()[-k]\<close> is element \<open>length path - k\<close>; on a path of fewer than three points the
  read is out of bounds.
\<close>

definition removeHook :: "Vector2d list \<Rightarrow> fault + Vector2d list" where
  "removeHook path =
     (let n = length path in
      if n < 3 then Inl IndexOutOfRange
      else
        let interpolated_second_to_last_point = midpoint2 (path ! (n - 3)) (path ! (n - 1))
        in if squaredDistance (path ! (n - 2)) (path ! (n - 1)) >
              squaredDistance interpolated_second_to_last_point (path ! (n - 1))
           then Inr (path[n - 2 := interpolated_second_to_last_point])
           else Inr path)"

subsection \<open>configure\<close>

text \<open>
  The parameter server is external: the record holds the value each \<open>get_parameter\<close>
  delivers (the declared default when the parameter is not set).
\<close>

record parameters =
  param_tolerance :: real
  param_downsample_costmap :: bool
  param_downsampling_factor :: "32 word"
  param_angle_quantization_bins :: "32 word"
  param_allow_unknown :: bool
  param_max_iterations :: "32 word"
  param_travel_cost_scale :: real
  param_smooth_path :: bool
  param_upsample_path :: bool
  param_upsampling_ratio :: "32 word"
  param_minimum_turning_radius :: real
  param_motion_model_for_search :: string

text \<open>
  Modelled from the spec: \<open>fromString\<close> is declared in a header that is not among the
  sources; the specification lists the five recognised names, and the facade tests its
  result against \<open>MotionModel::UNKNOWN\<close>.
\<close>

definition fromString :: "string \<Rightarrow> MotionModel" where
  "fromString n =
     (if n = ''VON_NEUMANN'' then VON_NEUMANN
      else if n = ''MOORE'' then MOORE
      else if n = ''DUBIN'' then DUBIN
      else if n = ''REEDS_SHEPP'' then REEDS_SHEPP
      else if n = ''BALKCOM_MASON'' then BALKCOM_MASON
      else UNKNOWN_MODEL)"

text \<open>
  The A* engine as the facade sets it up: the constructor's arguments and those of
  \<open>initialize\<close>.
\<close>

record AStarAlgorithm =
  motion_model :: MotionModel
  min_turning_radius :: "real option"
  travel_cost_scale :: real
  allow_unknown :: bool
  max_iterations :: "32 word"
  max_on_approach_iterations :: "32 word"

text \<open>The members of the planner; a \<open>unique_ptr\<close> member is the flag "not null".\<close>

record SmacPlanner =
  a_star :: AStarAlgorithm
  smoother :: bool
  upsampler :: bool
  costmap_downsampler :: bool
  costmap :: Costmap2D
  name :: string
  global_frame :: string
  tolerance :: real
  downsample_costmap :: bool
  downsampling_factor :: "32 word"
  angle_bin_size :: "real option"
  angle_quantizations :: nat
  upsampling_ratio :: "32 word"

datatype exit_code = Exit int

text \<open>
  \<open>configure\<close> returns the log lines in order and either the exit code of \<open>exit(-1)\<close> or
  the configured planner.  A log line carries its format string with the string arguments
  filled in; numeric directives are left as written.
\<close>

definition configure ::
  "parameters \<Rightarrow> string \<Rightarrow> string \<Rightarrow> Costmap2D \<Rightarrow> log list \<times> (exit_code + SmacPlanner)" where
  "configure ps nm frame cm =
     (let max_on_approach_iterations_init = INT_MAX;
          angle_quantizations_in = param_angle_quantization_bins ps;
          bin_size = fdiv (2 * pi) (real_of_int (sint angle_quantizations_in));
          motion_model_in = fromString (param_motion_model_for_search ps);
          log_model =
            (if motion_model_in = UNKNOWN_MODEL
             then [WARN (''Unable to get MotionModel search type. Given ''
                     @ [CHR 0x27] @ param_motion_model_for_search ps @ [CHR 0x27] @ '', ''
                     @ ''valid options are MOORE, VON_NEUMANN, DUBIN, REEDS_SHEPP, BALKCOM_MASON.'')]
             else []);
          log_approach =
            (if max_on_approach_iterations_init \<le>s 0
             then [INFO (''On approach iteration selected as <= 0, ''
                     @ ''disabling tolerance and on approach iterations.'')]
             else []);
          max_on_approach_iterations_in =
            (if max_on_approach_iterations_init \<le>s 0 then INT_MAX
             else max_on_approach_iterations_init);
          log_iterations =
            (if param_max_iterations ps \<le>s 0
             then [INFO (''maximum iteration selected as <= 0, ''
                     @ ''disabling maximum iterations.'')]
             else []);
          max_iterations_in =
            (if param_max_iterations ps \<le>s 0 then INT_MAX else param_max_iterations ps);
          logs = log_model @ log_approach @ log_iterations
      in if param_travel_cost_scale ps > 1 \<or> param_travel_cost_scale ps < 0
         then (logs @ [FATAL ''Travel cost scale must be between 0 and 1, exiting.''],
               Inl (Exit (- 1)))
         else
           let ratio_bad = (param_upsampling_ratio ps \<noteq> 2 \<and> param_upsampling_ratio ps \<noteq> 4);
               log_ratio =
                 (if ratio_bad
                  then [WARN ''Upsample ratio set to %i, only 2 and 4 are valid. Defaulting to 2.'']
                  else []);
               upsampling_ratio_in = (if ratio_bad then 2 else param_upsampling_ratio ps);
               grid_coord_min_turning_rad =
                 fdiv (param_minimum_turning_radius ps)
                   (Resolution cm * real_of_int (sint (param_downsampling_factor ps)));
               engine =
                 \<lparr>motion_model = motion_model_in,
                  min_turning_radius = grid_coord_min_turning_rad,
                  travel_cost_scale = param_travel_cost_scale ps,
                  allow_unknown = param_allow_unknown ps,
                  max_iterations = max_iterations_in,
                  max_on_approach_iterations = max_on_approach_iterations_in\<rparr>
           in (logs @ log_ratio @
                 [INFO (''Configured plugin '' @ nm @ '' of type SmacPlanner with ''
                    @ ''travel cost %.2f, tolerance %.2f, maximum iterations %i, ''
                    @ ''max on approach iterations %i, and %s. Using motion model: %s.'')],
               Inr \<lparr>a_star = engine,
                    smoother = param_smooth_path ps,
                    upsampler = (param_smooth_path ps \<and> param_upsample_path ps
                                 \<and> 0 <s upsampling_ratio_in),
                    costmap_downsampler = (param_downsample_costmap ps
                                 \<and> 1 <s param_downsampling_factor ps),
                    costmap = cm,
                    name = nm,
                    global_frame = frame,
                    tolerance = param_tolerance ps,
                    downsample_costmap = param_downsample_costmap ps,
                    downsampling_factor = param_downsampling_factor ps,
                    angle_bin_size = bin_size,
                    angle_quantizations = unat angle_quantizations_in,
                    upsampling_ratio = upsampling_ratio_in\<rparr>))"

subsection \<open>createPlan\<close>

text \<open>
  A stamped pose, as far as the facade reads it: the position and the yaw that
  \<open>tf2::getYaw\<close> extracts from the orientation.
\<close>

record PoseStamped =
  position_x :: real
  position_y :: real
  orientation_yaw :: real

text \<open>
  What \<open>createPath\<close> can do: throw a \<open>std::runtime_error\<close>, or return its Boolean together
  with the index path and the iteration count it wrote.
\<close>

datatype createPath_outcome =
  Threw string
| Returned bool "(real \<times> real) list" "32 word"

text \<open>
  The collaborators of one call to \<open>createPlan\<close>.  \<open>worldToMap\<close> gives the cell it writes to
  \<open>mx, my\<close> (its Boolean result is discarded by the facade); \<open>createPath\<close> is the engine's
  answer for the start, the goal and the tolerance it was given; \<open>smooth\<close> and \<open>upsample\<close>
  return their Boolean and the vector they leave behind.
\<close>

record collaborators =
  downsample :: "Costmap2D \<Rightarrow> 32 word \<Rightarrow> Costmap2D"
  worldToMap :: "Costmap2D \<Rightarrow> real \<Rightarrow> real \<Rightarrow> nat \<times> nat"
  createPath :: "nat \<times> nat \<times> nat \<Rightarrow> nat \<times> nat \<times> nat \<Rightarrow> real option \<Rightarrow> createPath_outcome"
  smooth :: "Vector2d list \<Rightarrow> Costmap2D \<Rightarrow> bool \<times> Vector2d list"
  upsample :: "Vector2d list \<Rightarrow> 32 word \<Rightarrow> bool \<times> Vector2d list"
  raw_plan_subscribers :: nat
  smoothed_plan_subscribers :: nat

text \<open>The calls \<open>createPlan\<close> makes and the lines it logs, in order.\<close>

datatype event =
  CreateGraph nat nat nat
| SetStart nat nat nat
| SetGoal nat nat nat
| CreatePath "real option"
| Log log
| PublishRaw "Vector2d list"
| Smooth "Vector2d list"
| RemoveHook "Vector2d list"
| PublishSmoothed "Vector2d list"
| Upsample "Vector2d list" "32 word"

definition getWorldCoords :: "real \<Rightarrow> real \<Rightarrow> Costmap2D \<Rightarrow> Vector2d" where
  "getWorldCoords mx my cm =
     (let world_x = OriginX cm + (mx + 0.5) * Resolution cm;
          world_y = OriginY cm + (my + 0.5) * Resolution cm
      in (world_x, world_y))"

text \<open>The orientation bin: \<open>static_cast<unsigned int>(orientation / _angle_bin_size)\<close>.
  A finite yaw divided by an infinite bin size is zero.\<close>

definition orientation_bin :: "real \<Rightarrow> real option \<Rightarrow> fault + nat" where
  "orientation_bin orientation bin_size =
     to_uint (case bin_size of None \<Rightarrow> 0 | Some b \<Rightarrow> orientation / b)"

text \<open>The costmap the plan is made on.\<close>

definition planning_costmap :: "collaborators \<Rightarrow> SmacPlanner \<Rightarrow> Costmap2D" where
  "planning_costmap e st =
     (if costmap_downsampler st then downsample e (costmap st) (downsampling_factor st)
      else costmap st)"

text \<open>The arguments of \<open>setStart\<close> and of \<open>setGoal\<close>, as the facade computes them.\<close>

definition setStart_args ::
  "collaborators \<Rightarrow> SmacPlanner \<Rightarrow> PoseStamped \<Rightarrow> fault + nat \<times> nat \<times> nat" where
  "setStart_args e st start =
     (let (mx, my) = worldToMap e (planning_costmap e st) (position_x start) (position_y start);
          orientation = orientation_yaw start
      in case orientation_bin orientation (angle_bin_size st) of
           Inl f \<Rightarrow> Inl f
         | Inr b \<Rightarrow> Inr (mx, my, b))"

definition setGoal_args ::
  "collaborators \<Rightarrow> SmacPlanner \<Rightarrow> PoseStamped \<Rightarrow> PoseStamped \<Rightarrow> fault + nat \<times> nat \<times> nat" where
  "setGoal_args e st start goal =
     (let (mx, my) = worldToMap e (planning_costmap e st) (position_x goal) (position_y goal);
          orientation = orientation_yaw start
      in case orientation_bin orientation (angle_bin_size st) of
           Inl f \<Rightarrow> Inl f
         | Inr b \<Rightarrow> Inr (mx, my, b))"

text \<open>
  The conversion loop \<open>for (int i = path.size() - 1; i >= 0; --i)\<close>:
  \<open>convert_loop sm cm path k\<close> runs the iterations \<open>i = k - 1, ..., 0\<close>.
\<close>

primrec convert_loop :: "bool \<Rightarrow> Costmap2D \<Rightarrow> (real \<times> real) list \<Rightarrow> nat \<Rightarrow> Vector2d list" where
  "convert_loop sm cm path 0 = []"
| "convert_loop sm cm path (Suc i) =
     (if sm \<and> i mod 4 \<noteq> 0 then convert_loop sm cm path i
      else getWorldCoords (fst (path ! i)) (snd (path ! i)) cm # convert_loop sm cm path i)"

text \<open>\<open>std::vector::resize\<close> on the poses: new elements are value-initialised.\<close>

definition resize :: "nat \<Rightarrow> Vector2d list \<Rightarrow> Vector2d list" where
  "resize n xs = take n xs @ replicate (n - length xs) (0, 0)"

text \<open>
  The part of \<open>createPlan\<close> from "Smooth plan" to the end.  \<open>plan\<close> holds the positions of
  \<open>plan.poses\<close>.
\<close>

definition smooth_plan ::
  "collaborators \<Rightarrow> SmacPlanner \<Rightarrow> Costmap2D \<Rightarrow> event list \<Rightarrow> Vector2d list \<Rightarrow> Vector2d list
   \<Rightarrow> fault + event list \<times> Vector2d list" where
  "smooth_plan e st cm evs plan path_world =
     (let smoothed = smooth e path_world cm; pw1 = snd smoothed in
      if \<not> fst smoothed
      then Inr (evs @ [Smooth path_world,
                       Log (WARN (name st @ '': failed to smooth plan, ''
                         @ ''Ceres could not find a usable solution to optimize.''))],
                plan)
      else
        (case removeHook pw1 of
           Inl f \<Rightarrow> Inl f
         | Inr pw2 \<Rightarrow>
             if smoothed_plan_subscribers e > 0 \<and> length plan < length pw2
             then Inl IndexOutOfRange
             else
               let plan1 = (if smoothed_plan_subscribers e > 0
                            then pw2 @ drop (length pw2) plan else plan);
                   evs1 = evs @ [Smooth path_world, RemoveHook pw1]
                          @ (if smoothed_plan_subscribers e > 0
                             then [PublishSmoothed plan1] else []);
                   up = (if upsampler st then upsample e pw2 (upsampling_ratio st)
                         else (True, pw2));
                   pw3 = snd up;
                   plan2 = (if upsampler st \<and> fst up then resize (length pw3) plan1 else plan1);
                   evs2 = evs1
                          @ (if upsampler st then [Upsample pw2 (upsampling_ratio st)] else [])
                          @ (if upsampler st \<and> \<not> fst up
                             then [Log (WARN (name st @ '': failed to upsample plan, ''
                               @ ''Ceres could not find a usable solution to optimize.''))]
                             else [])
               in if length pw3 < length plan2 then Inl IndexOutOfRange
                  else Inr (evs2, take (length plan2) pw3)))"

text \<open>
  \<open>createPlan\<close>: the events in order and the positions of the returned plan, or the
  undefined behaviour it ran into.  \<open>getMaxIterations\<close> is the limit the engine was
  initialised with; only the \<open>std::runtime_error\<close> of \<open>createPath\<close> is caught.
\<close>

definition createPlan ::
  "collaborators \<Rightarrow> SmacPlanner \<Rightarrow> PoseStamped \<Rightarrow> PoseStamped
   \<Rightarrow> fault + event list \<times> Vector2d list" where
  "createPlan e st start goal =
     (let cm = planning_costmap e st in
      case setStart_args e st start of
        Inl f \<Rightarrow> Inl f
      | Inr s \<Rightarrow>
      (case setGoal_args e st start goal of
        Inl f \<Rightarrow> Inl f
      | Inr g \<Rightarrow>
        let tol = fdiv (tolerance st) (Resolution cm);
            evs = [CreateGraph (SizeInCellsX cm) (SizeInCellsY cm) (angle_quantizations st),
                   SetStart (fst s) (fst (snd s)) (snd (snd s)),
                   SetGoal (fst g) (fst (snd g)) (snd (snd g)),
                   CreatePath tol];
            outcome = createPath e s g tol;
            error =
              (case outcome of
                 Threw what \<Rightarrow> ''invalid use: '' @ what
               | Returned found _ num_iterations \<Rightarrow>
                   if \<not> found
                   then (if num_iterations <s max_iterations (a_star st)
                         then ''no valid path found''
                         else ''exceeded maximum iterations'')
                   else [])
        in if error \<noteq> []
           then Inr (evs @ [Log (WARN (name st @ '': failed to create plan, '' @ error @ ''.''))],
                     [])
           else
             let path = (case outcome of Returned _ p _ \<Rightarrow> p | Threw _ \<Rightarrow> []);
                 path_world = convert_loop (smoother st) cm path (length path);
                 plan = path_world;
                 evs1 = evs @ (if raw_plan_subscribers e > 0 then [PublishRaw plan] else [])
             in if \<not> smoother st then Inr (evs1, plan)
                else if length path_world < 4 then Inr (evs1, plan)
                else smooth_plan e st cm evs1 plan path_world))"

subsection \<open>Concrete inputs\<close>

text \<open>The sentinel values of a 2D costmap byte.\<close>

definition byte_sentinels :: cost_sentinels where
  "byte_sentinels = \<lparr>UNKNOWN = 255, OCCUPIED = 254, INSCRIBED = 253\<rparr>"

text \<open>The defaults \<open>configure\<close> declares for its parameters.\<close>

definition default_parameters :: parameters where
  "default_parameters =
     \<lparr>param_tolerance = 0.125,
      param_downsample_costmap = True,
      param_downsampling_factor = 1,
      param_angle_quantization_bins = 1,
      param_allow_unknown = True,
      param_max_iterations = - 1,
      param_travel_cost_scale = 0.8,
      param_smooth_path = True,
      param_upsample_path = False,
      param_upsampling_ratio = 2,
      param_minimum_turning_radius = 1,
      param_motion_model_for_search = ''MOORE''\<rparr>"

text \<open>A 10 by 10 costmap of free cells, one metre per cell, with its origin at (0, 0).\<close>

definition unit_costmap :: Costmap2D where
  "unit_costmap =
     \<lparr>SizeInCellsX = 10, SizeInCellsY = 10, OriginX = 0, OriginY = 0, Resolution = 1,
      CharMap = replicate 100 0\<rparr>"

text \<open>The planner \<open>configure\<close> builds from the defaults on that costmap.\<close>

definition default_planner :: SmacPlanner where
  "default_planner =
     \<lparr>a_star =
        \<lparr>motion_model = MOORE, min_turning_radius = Some 1, travel_cost_scale = 0.8,
         allow_unknown = True, max_iterations = INT_MAX,
         max_on_approach_iterations = INT_MAX\<rparr>,
      smoother = True,
      upsampler = False,
      costmap_downsampler = False,
      costmap = unit_costmap,
      name = ''GridBased'',
      global_frame = ''map'',
      tolerance = 0.125,
      downsample_costmap = True,
      downsampling_factor = 1,
      angle_bin_size = Some (2 * pi),
      angle_quantizations = 1,
      upsampling_ratio = 2\<rparr>"

text \<open>The same planner with four orientation bins of a quarter turn each.\<close>

definition four_bin_planner :: SmacPlanner where
  "four_bin_planner = default_planner\<lparr>angle_bin_size := Some (pi / 2), angle_quantizations := 4\<rparr>"

text \<open>
  Collaborators for a straight run along the bottom row: the engine answers with the six
  cells from the goal cell (5, 0) back to the start cell (0, 0); smoother and upsampler
  leave the path as it is.
\<close>

definition straight_run :: collaborators where
  "straight_run =
     \<lparr>downsample = (\<lambda>cm factor. cm),
      worldToMap = (\<lambda>cm wx wy. (nat \<lfloor>(wx - OriginX cm) / Resolution cm\<rfloor>,
                                 nat \<lfloor>(wy - OriginY cm) / Resolution cm\<rfloor>)),
      createPath = (\<lambda>s g tol. Returned True [(5, 0), (4, 0), (3, 0), (2, 0), (1, 0), (0, 0)] 6),
      smooth = (\<lambda>pw cm. (True, pw)),
      upsample = (\<lambda>pw ratio. (True, pw)),
      raw_plan_subscribers = 0,
      smoothed_plan_subscribers = 0\<rparr>"

text \<open>The same collaborators with an engine that finds no path after ten iterations.\<close>

definition no_path_found :: collaborators where
  "no_path_found = straight_run\<lparr>createPath := (\<lambda>s g tol. Returned False [] 10)\<rparr>"

text \<open>Poses at the centres of the cells (0, 0) and (5, 0); the second goal is turned by a
  quarter turn.\<close>

definition start_pose :: PoseStamped where
  "start_pose = \<lparr>position_x = 1/2, position_y = 1/2, orientation_yaw = 0\<rparr>"

definition goal_pose :: PoseStamped where
  "goal_pose = \<lparr>position_x = 11/2, position_y = 1/2, orientation_yaw = 0\<rparr>"

definition turned_goal_pose :: PoseStamped where
  "turned_goal_pose = \<lparr>position_x = 11/2, position_y = 1/2, orientation_yaw = pi / 2\<rparr>"

text \<open>
  Collaborators for a run around a corner: thirteen cells from the goal cell (9, 3) down
  the last column and back along the bottom row to the start cell (0, 0).
\<close>

definition corner_run :: collaborators where
  "corner_run =
     straight_run\<lparr>createPath := (\<lambda>s g tol. Returned True
        [(9, 3), (9, 2), (9, 1), (9, 0), (8, 0), (7, 0), (6, 0), (5, 0), (4, 0), (3, 0),
         (2, 0), (1, 0), (0, 0)] 13)\<rparr>"

text \<open>A goal at the centre of the cell (9, 3).\<close>

definition corner_goal_pose :: PoseStamped where
  "corner_goal_pose = \<lparr>position_x = 19/2, position_y = 7/2, orientation_yaw = 0\<rparr>"

text \<open>The default planner without a smoother.\<close>

definition unsmoothed_planner :: SmacPlanner where
  "unsmoothed_planner = default_planner\<lparr>smoother := False\<rparr>"

text \<open>The default planner with a budget of ten iterations.\<close>

definition ten_iteration_planner :: SmacPlanner where
  "ten_iteration_planner =
     default_planner\<lparr>a_star := (a_star default_planner)\<lparr>max_iterations := 10\<rparr>\<rparr>"

text \<open>The defaults with a motion model name that \<open>fromString\<close> does not know.\<close>

definition unknown_model_parameters :: parameters where
  "unknown_model_parameters = default_parameters\<lparr>param_motion_model_for_search := ''HYBRID''\<rparr>"

text \<open>The calls that refine a plan: smoother, hook removal, upsampler.\<close>

fun is_refinement_call :: "event \<Rightarrow> bool" where
  "is_refinement_call (Smooth _) = True"
| "is_refinement_call (RemoveHook _) = True"
| "is_refinement_call (Upsample _ _) = True"
| "is_refinement_call _ = False"

section \<open>Properties of the node and the motion table\<close>

subsection \<open>Validity of a node\<close>

text \<open>
  C5.  For every node and every \<open>traverse_unknown\<close>, \<open>isNodeValid\<close> returns false exactly
  when the cell cost is OCCUPIED or INSCRIBED, or is UNKNOWN while \<open>traverse_unknown\<close> is
  false; and it returns true for every cost strictly below INSCRIBED, the sentinels
  OCCUPIED and UNKNOWN lying at or above INSCRIBED.
\<close>

theorem isNodeValid_characterisation:
  "(\<not> isNodeValid k node traverse_unknown \<longleftrightarrow>
      (cell_cost node = OCCUPIED k \<or> cell_cost node = INSCRIBED k
       \<or> (cell_cost node = UNKNOWN k \<and> \<not> traverse_unknown)))
   \<and> (INSCRIBED k \<le> OCCUPIED k \<and> INSCRIBED k \<le> UNKNOWN k \<and> cell_cost node < INSCRIBED k
        \<longrightarrow> isNodeValid k node traverse_unknown)"
  by (auto simp: isNodeValid_def Let_def)

theorem isNodeValid_characterisation_witness:
  "INSCRIBED byte_sentinels \<le> OCCUPIED byte_sentinels
   \<and> INSCRIBED byte_sentinels \<le> UNKNOWN byte_sentinels
   \<and> cell_cost (new_NodeSE2 100 7) < INSCRIBED byte_sentinels
   \<and> isNodeValid byte_sentinels (new_NodeSE2 100 7) False
   \<and> \<not> isNodeValid byte_sentinels (new_NodeSE2 255 7) False
   \<and> isNodeValid byte_sentinels (new_NodeSE2 255 7) True
   \<and> \<not> isNodeValid byte_sentinels (new_NodeSE2 253 7) True"
  using isNodeValid_characterisation [of byte_sentinels "new_NodeSE2 100 7" False]
    isNodeValid_characterisation [of byte_sentinels "new_NodeSE2 255 7" False]
    isNodeValid_characterisation [of byte_sentinels "new_NodeSE2 255 7" True]
    isNodeValid_characterisation [of byte_sentinels "new_NodeSE2 253 7" True]
  by (simp add: byte_sentinels_def new_NodeSE2_def)

subsection \<open>Values of the trigonometric functions used below\<close>

lemma arcsin_sqrt2_half: "arcsin (sqrt 2 / 2) = pi / 4"
  using arcsin_sin [of "pi / 4"] sin_45 by simp

lemma arcsin_sqrt3_half: "arcsin (sqrt 3 / 2) = pi / 3"
  using arcsin_sin [of "pi / 3"] sin_60 by simp

lemma sqrt2_half_in_domain: "\<bar>sqrt 2 / 2\<bar> \<le> (1::real)"
  by (simp add: real_le_lsqrt)

lemma sqrt3_half_in_domain: "\<bar>sqrt 3 / 2\<bar> \<le> (1::real)"
proof -
  have "sqrt 3 \<le> 2" by (rule real_le_lsqrt) simp_all
  then show ?thesis by simp
qed

lemma three_quarters_in_domain: "\<bar>sqrt 2 / (2 * (3 / 4))\<bar> \<le> (1::real)"
proof -
  have "sqrt 2 \<le> 3 / 2" by (rule real_le_lsqrt) (simp_all add: power2_eq_square)
  then show ?thesis by simp
qed

lemma sin_four_thirds_pi: "sin (4 * pi / 3) = - (sqrt 3 / 2)"
proof -
  have "4 * pi / 3 = pi / 3 + pi" by simp
  then show ?thesis using sin_periodic_pi [of "pi / 3"] sin_60 by simp
qed

lemma cos_four_thirds_pi: "cos (4 * pi / 3) = - (1 / 2)"
proof -
  have "4 * pi / 3 = pi / 3 + pi" by simp
  then show ?thesis using cos_periodic_pi [of "pi / 3"] cos_60 by simp
qed

subsection \<open>The Dubin table against the specification's formula\<close>

lemma turning_angle_formula:
  assumes "1 \<le> n" and "r \<noteq> 0" and "\<bar>sqrt 2 / (2 * r)\<bar> \<le> 1"
  shows "turning_angle n r =
    Some (let angle_raw = 2 * arcsin (sqrt 2 / (2 * r)); bin = 2 * pi / real n
          in if angle_raw < bin then bin else real_of_int \<lceil>angle_raw / bin\<rceil> * bin)"
proof -
  let ?a = "2 * arcsin (sqrt 2 / (2 * r))"
  let ?b = "2 * pi / real n"
  have b0: "?b \<noteq> 0" using assms(1) by simp
  have on_bin: "real_of_int \<lceil>?a / ?b\<rceil> * ?b = ?a" if e: "?a = ?b"
  proof -
    have "?a / ?b = 1" using b0 unfolding e by simp
    then show ?thesis using e by simp
  qed
  have guard: "\<not> (r = 0 \<or> n = 0 \<or> \<bar>sqrt 2 / (2 * r)\<bar> > 1)" using assms by auto
  show ?thesis
  proof (cases "?a < ?b")
    case True
    then show ?thesis using guard unfolding turning_angle_def Let_def by simp
  next
    case False
    show ?thesis
    proof (cases "?a > ?b")
      case True
      then show ?thesis using guard unfolding turning_angle_def Let_def
        by (simp add: mult.commute)
    next
      case above: False
      with False have "?a = ?b" by simp
      from on_bin [OF this] this show ?thesis using guard unfolding turning_angle_def Let_def
        by simp
    qed
  qed
qed

text \<open>
  C4.  \<open>initDubin(size_x, n_angles, r_min)\<close> produces exactly the ordered list
  \<open>(sqrt 2, 0, 0)\<close>, \<open>(dx, dy, +angle)\<close>, \<open>(dx, -dy, -angle)\<close> of the specification's formula,
  wherever that formula is defined: at least one bin, a non-zero radius, and the argument
  of \<open>asin\<close> inside \<open>[-1, 1]\<close>.
\<close>

theorem initDubin_matches_spec:
  assumes "1 \<le> n" and "r \<noteq> 0" and "\<bar>sqrt 2 / (2 * r)\<bar> \<le> 1"
  shows "initDubin sx n r =
     Some \<lparr>size_x = sx, num_angle_quantization = n, projections = dubin_primitives_spec n r\<rparr>"
  unfolding initDubin_def turning_angle_formula [OF assms] dubin_primitives_spec_def
  by (simp add: Let_def)

theorem initDubin_matches_spec_witness:
  "(1::nat) \<le> 4 \<and> (1::real) \<noteq> 0 \<and> \<bar>sqrt 2 / (2 * 1)\<bar> \<le> (1::real)
   \<and> initDubin 10 4 1 =
       Some \<lparr>size_x = 10, num_angle_quantization = 4,
             projections = [(sqrt 2, 0, 0), (1, - 1, pi / 2), (1, 1, - (pi / 2))]\<rparr>"
proof -
  have n: "(1::nat) \<le> 4" by simp
  have r: "(1::real) \<noteq> 0" by simp
  have d: "\<bar>sqrt 2 / (2 * 1)\<bar> \<le> (1::real)" using sqrt2_half_in_domain by simp
  have "dubin_primitives_spec 4 1 = [(sqrt 2, 0, 0), (1, - 1, pi / 2), (1, 1, - (pi / 2))]"
    by (simp add: dubin_primitives_spec_def arcsin_sqrt2_half Let_def)
  with initDubin_matches_spec [OF n r d, of 10] n r d show ?thesis by simp
qed

subsection \<open>Primitives that do not leave the cell\<close>

lemma turning_angle_three_bins: "turning_angle 3 (3 / 4) = Some (4 * pi / 3)"
proof -
  let ?x = "sqrt 2 / (2 * (3 / 4))"
  let ?a = "2 * arcsin ?x"
  let ?b = "2 * pi / real 3"
  have dom: "\<not> \<bar>?x\<bar> > (1::real)" using three_quarters_in_domain by simp
  have "sqrt 3 / 2 < ?x"
  proof (rule power2_less_imp_less)
    show "(sqrt 3 / 2)\<^sup>2 < ?x\<^sup>2" by (simp add: power_divide)
    show "0 \<le> ?x" by simp
  qed
  then have lower: "pi / 3 < arcsin ?x"
    using arcsin_less_mono [OF sqrt3_half_in_domain three_quarters_in_domain]
      arcsin_sqrt3_half by simp
  have upper: "arcsin ?x \<le> pi / 2"
  proof (rule arcsin_ubound)
    show "- 1 \<le> ?x" by (rule order_trans [of _ 0]) simp_all
    show "?x \<le> 1" using three_quarters_in_domain by simp
  qed
  have gt: "?a > ?b" using lower by simp
  have "1 < ?a / ?b" using gt by (simp add: field_simps)
  moreover have "3 * arcsin ?x \<le> 2 * pi" using upper pi_gt_zero by linarith
  then have "?a / ?b \<le> 2" by (simp add: field_simps)
  ultimately have c: "\<lceil>?a / ?b\<rceil> = 2" by (simp add: ceiling_eq_iff)
  have "turning_angle 3 (3 / 4) = Some (?b * real_of_int \<lceil>?a / ?b\<rceil>)"
    unfolding turning_angle_def Let_def using dom gt by simp
  then show ?thesis unfolding c by simp
qed

lemma turning_angle_one_bin: "turning_angle 1 1 = Some (2 * pi)"
proof -
  have "\<not> \<bar>sqrt 2 / 2\<bar> > (1::real)" using sqrt2_half_in_domain by simp
  moreover have "2 * arcsin (sqrt 2 / 2) < 2 * pi" by (simp add: arcsin_sqrt2_half)
  ultimately show ?thesis unfolding turning_angle_def Let_def by simp
qed

text \<open>
  With the default single orientation bin the turn is a full circle: both curved Dubin
  primitives have no displacement at all.
\<close>

lemma initDubin_one_bin:
  "initDubin sx 1 1 =
     Some \<lparr>size_x = sx, num_angle_quantization = 1,
           projections = [(sqrt 2, 0, 0), (0, 0, 2 * pi), (0, 0, - (2 * pi))]\<rparr>"
  by (simp add: initDubin_def turning_angle_one_bin del: One_nat_def)

text \<open>
  C3 (the code at a failing input).  With three bins and a turning radius of three
  quarters of a cell, the raw angle lies above one bin and is rounded up to two bins, a
  turn of 240 degrees: the curved Dubin primitives are displaced, yet by less than
  \<open>sqrt 2\<close>.
\<close>

theorem initDubin_short_chord:
  "initDubin 10 3 (3 / 4) =
     Some \<lparr>size_x = 10, num_angle_quantization = 3,
           projections =
             [(sqrt 2, 0, 0),
              (- (3 * sqrt 3 / 8), - (9 / 8), 4 * pi / 3),
              (- (3 * sqrt 3 / 8), 9 / 8, - (4 * pi / 3))]\<rparr>
   \<and> magnitude (- (3 * sqrt 3 / 8), - (9 / 8), 4 * pi / 3) = sqrt (27 / 16)
   \<and> sqrt (27 / 16) < sqrt 2"
proof -
  have "(- (3 * sqrt 3 / 8))\<^sup>2 + (- (9 / 8 :: real))\<^sup>2 = 27 / 16"
    by (simp add: power2_eq_square)
  then have "magnitude (- (3 * sqrt 3 / 8), - (9 / 8), 4 * pi / 3) = sqrt (27 / 16)"
    by (simp add: magnitude_def)
  moreover have "initDubin 10 3 (3 / 4) =
     Some \<lparr>size_x = 10, num_angle_quantization = 3,
           projections =
             [(sqrt 2, 0, 0),
              (- (3 * sqrt 3 / 8), - (9 / 8), 4 * pi / 3),
              (- (3 * sqrt 3 / 8), 9 / 8, - (4 * pi / 3))]\<rparr>"
    by (simp add: initDubin_def turning_angle_three_bins sin_four_thirds_pi
        cos_four_thirds_pi Let_def)
  ultimately show ?thesis by simp
qed

subsection \<open>Where the primitives do leave the cell\<close>

text \<open>
  The chord of a turn by \<open>t\<close> on a circle of radius \<open>r\<close>; at the raw angle it is
  \<open>sqrt 2\<close>, and it grows with the angle up to a half turn.
\<close>

lemma chord_square:
  "(r * sin t)\<^sup>2 + (r * cos t - r)\<^sup>2 = 2 * r\<^sup>2 * (1 - cos t)" for r t :: real
proof -
  have unit: "r\<^sup>2 * (sin t)\<^sup>2 + r\<^sup>2 * (cos t)\<^sup>2 = r\<^sup>2"
    by (simp add: distrib_left [symmetric])
  have "(r * sin t)\<^sup>2 + (r * cos t - r)\<^sup>2
        = (r\<^sup>2 * (sin t)\<^sup>2 + r\<^sup>2 * (cos t)\<^sup>2) + r\<^sup>2 - 2 * (r * cos t) * r"
    by (simp add: power_mult_distrib power2_diff)
  also have "\<dots> = r\<^sup>2 + r\<^sup>2 - 2 * (r * cos t) * r" unfolding unit ..
  also have "\<dots> = 2 * r\<^sup>2 * (1 - cos t)" by (simp add: power2_eq_square algebra_simps)
  finally show ?thesis .
qed

lemma raw_angle_chord:
  assumes "0 < r" and "sqrt 2 / (2 * r) \<le> 1"
  shows "2 * r\<^sup>2 * (1 - cos (2 * arcsin (sqrt 2 / (2 * r)))) = 2"
proof -
  let ?x = "sqrt 2 / (2 * r)"
  have x0: "0 \<le> ?x" using assms(1) by simp
  then have s: "sin (arcsin ?x) = ?x" using assms(2) by (intro sin_arcsin) simp_all
  have "cos (2 * arcsin ?x) = 1 - 2 * ?x\<^sup>2"
    by (simp add: cos_double_sin s)
  then have "2 * r\<^sup>2 * (1 - cos (2 * arcsin ?x)) = 4 * r\<^sup>2 * ?x\<^sup>2" by simp
  also have "\<dots> = 2" using assms(1) by (simp add: power_divide power2_eq_square)
  finally show ?thesis .
qed

lemma turning_angle_even_bins:
  assumes r: "0 < r" and dom: "sqrt 2 / (2 * r) \<le> 1" and n: "0 < n" "even n"
  shows "\<exists>angle. turning_angle n r = Some angle
           \<and> 0 \<le> 2 * arcsin (sqrt 2 / (2 * r))
           \<and> 2 * arcsin (sqrt 2 / (2 * r)) \<le> angle \<and> angle \<le> pi"
proof -
  let ?x = "sqrt 2 / (2 * r)"
  let ?a = "2 * arcsin ?x"
  let ?b = "2 * pi / real n"
  have x0: "0 \<le> ?x" using r by simp
  have a0: "0 \<le> ?a" using arcsin_le_arcsin [of 0 ?x] x0 dom by simp
  have api: "?a \<le> pi" using arcsin_ubound [of ?x] x0 dom by simp
  from n obtain k where k: "n = 2 * k" and kpos: "0 < k" by (auto elim: evenE)
  have b: "?b = pi / real k" using kpos by (simp add: k)
  have bpos: "0 < ?b" using n by simp
  have bk: "?b * real k = pi" using kpos by (simp add: b)
  have bpi: "?b \<le> pi"
  proof -
    have "1 \<le> real k" using kpos by simp
    then have "pi / real k \<le> pi / 1" by (intro divide_left_mono) simp_all
    then show ?thesis by (simp add: b)
  qed
  have guard: "\<not> (r = 0 \<or> n = 0 \<or> \<bar>?x\<bar> > 1)" using r n dom x0 by simp
  have ta: "turning_angle n r = Some (if ?a < ?b then ?b
                 else if ?a > ?b then ?b * real_of_int \<lceil>?a / ?b\<rceil> else ?a)"
    unfolding turning_angle_def Let_def using guard by simp
  show ?thesis
  proof (cases "?a < ?b")
    case True
    with ta a0 bpi show ?thesis by simp
  next
    case False
    show ?thesis
    proof (cases "?a > ?b")
      case True
      have "?a / ?b = ?a * real k / pi" using kpos by (simp add: b)
      also have "\<dots> \<le> pi * real k / pi"
        using api by (intro divide_right_mono mult_right_mono) simp_all
      finally have "?a / ?b \<le> real k" by simp
      then have "\<lceil>?a / ?b\<rceil> \<le> int k" by (simp add: ceiling_le_iff)
      then have "real_of_int \<lceil>?a / ?b\<rceil> \<le> real k" by linarith
      then have "?b * real_of_int \<lceil>?a / ?b\<rceil> \<le> ?b * real k"
        using bpos by (intro mult_left_mono) simp_all
      then have up: "?b * real_of_int \<lceil>?a / ?b\<rceil> \<le> pi" unfolding bk .
      have "?a / ?b \<le> real_of_int \<lceil>?a / ?b\<rceil>" by (rule le_of_int_ceiling)
      then have "?a \<le> real_of_int \<lceil>?a / ?b\<rceil> * ?b"
        using pos_divide_le_eq [OF bpos, of ?a "real_of_int \<lceil>?a / ?b\<rceil>"] by blast
      then have lo: "?a \<le> ?b * real_of_int \<lceil>?a / ?b\<rceil>" by (simp add: mult.commute)
      from ta True False a0 up lo show ?thesis by simp
    next
      case eq: False
      with False ta a0 api show ?thesis by simp
    qed
  qed
qed

lemma curved_primitive_long:
  assumes r: "0 < r" and dom: "sqrt 2 / (2 * r) \<le> 1"
    and a0: "0 \<le> 2 * arcsin (sqrt 2 / (2 * r))"
    and lo: "2 * arcsin (sqrt 2 / (2 * r)) \<le> t" and hi: "t \<le> pi"
  shows "sqrt 2 \<le> sqrt ((r * sin t)\<^sup>2 + (r * cos t - r)\<^sup>2)"
proof -
  have "cos t \<le> cos (2 * arcsin (sqrt 2 / (2 * r)))"
    using a0 lo hi by (rule cos_monotone_0_pi_le)
  then have "1 - cos (2 * arcsin (sqrt 2 / (2 * r))) \<le> 1 - cos t" by simp
  then have "2 * r\<^sup>2 * (1 - cos (2 * arcsin (sqrt 2 / (2 * r)))) \<le> 2 * r\<^sup>2 * (1 - cos t)"
    by (intro mult_left_mono) simp_all
  then have "2 \<le> (r * sin t)\<^sup>2 + (r * cos t - r)\<^sup>2"
    unfolding raw_angle_chord [OF r dom] chord_square .
  then show ?thesis by simp
qed

text \<open>
  With an even number of bins the half turn is a multiple of the bin size, the rounded
  angle stays at or below it, and every Dubin and Reeds-Shepp primitive is displaced by at
  least \<open>sqrt 2\<close>.
\<close>

lemma initDubin_even_bins:
  assumes r: "0 < r" and dom: "sqrt 2 / (2 * r) \<le> 1" and n: "0 < n" "even n"
  shows "\<exists>t. initDubin sx n r = Some t \<and> (\<forall>p \<in> set (projections t). sqrt 2 \<le> magnitude p)"
proof -
  from turning_angle_even_bins [OF r dom n] obtain angle
    where ta: "turning_angle n r = Some angle"
      and b: "0 \<le> 2 * arcsin (sqrt 2 / (2 * r))" "2 * arcsin (sqrt 2 / (2 * r)) \<le> angle"
        "angle \<le> pi"
    by blast
  from curved_primitive_long [OF r dom b]
  have c: "sqrt 2 \<le> sqrt ((r * sin angle)\<^sup>2 + (r * cos angle - r)\<^sup>2)" .
  then have c': "sqrt 2 \<le> sqrt ((r * sin angle)\<^sup>2 + (r - r * cos angle)\<^sup>2)"
    by (simp add: power2_commute [of "r * cos angle" r])
  show ?thesis
    unfolding initDubin_def ta using c c' by (simp add: magnitude_def Let_def)
qed

lemma initReedsShepp_even_bins:
  assumes r: "0 < r" and dom: "sqrt 2 / (2 * r) \<le> 1" and n: "0 < n" "even n"
  shows "\<exists>t. initReedsShepp sx n r = Some t
           \<and> (\<forall>p \<in> set (projections t). sqrt 2 \<le> magnitude p)"
proof -
  from turning_angle_even_bins [OF r dom n] obtain angle
    where ta: "turning_angle n r = Some angle"
      and b: "0 \<le> 2 * arcsin (sqrt 2 / (2 * r))" "2 * arcsin (sqrt 2 / (2 * r)) \<le> angle"
        "angle \<le> pi"
    by blast
  from curved_primitive_long [OF r dom b]
  have c: "sqrt 2 \<le> sqrt ((r * sin angle)\<^sup>2 + (r * cos angle - r)\<^sup>2)" .
  then have c': "sqrt 2 \<le> sqrt ((r * sin angle)\<^sup>2 + (r - r * cos angle)\<^sup>2)"
    by (simp add: power2_commute [of "r * cos angle" r])
  show ?thesis
    unfolding initReedsShepp_def ta using c c' by (simp add: magnitude_def Let_def)
qed

text \<open>
  The Balkcom-Mason table: a primitive without displacement turns, every other one is
  displaced by \<open>sqrt 2\<close>.
\<close>

lemma initBalkcomMason_primitives:
  assumes "0 < n"
  shows "\<exists>t. initBalkcomMason sx n = Some t
           \<and> (\<forall>p \<in> set (projections t).
                 case p of (dx, dy, dth) \<Rightarrow>
                   if (dx, dy) = (0, 0) then dth \<noteq> 0 else magnitude p = sqrt 2)"
  using assms by (simp add: initBalkcomMason_def magnitude_def Let_def)

section \<open>Properties of the facade\<close>

subsection \<open>Hook removal\<close>

lemma removeHook_cases:
  assumes "3 \<le> length path"
  shows "removeHook path =
     Inr (if squaredDistance (path ! (length path - 2)) (path ! (length path - 1)) >
             squaredDistance (midpoint2 (path ! (length path - 3)) (path ! (length path - 1)))
               (path ! (length path - 1))
          then path[length path - 2 :=
                 midpoint2 (path ! (length path - 3)) (path ! (length path - 1))]
          else path)"
  using assms by (simp add: removeHook_def Let_def)

text \<open>
  C8.  \<open>removeHook\<close> is idempotent on every path of at least three waypoints: it returns a
  path \<open>p\<close> on which it returns \<open>p\<close> again.  One application replaces the second-to-last
  point by the midpoint of its neighbours exactly when it lies farther from the last
  point than that midpoint does, and on the result this condition no longer holds.
\<close>

theorem removeHook_idempotent:
  assumes "3 \<le> length path"
  shows "\<exists>p. removeHook path = Inr p \<and> removeHook p = Inr p \<and> length p = length path
     \<and> p = (if sqrt (squaredDistance (path ! (length path - 2)) (path ! (length path - 1))) >
               sqrt (squaredDistance
                      (midpoint2 (path ! (length path - 3)) (path ! (length path - 1)))
                      (path ! (length path - 1)))
            then path[length path - 2 :=
                   midpoint2 (path ! (length path - 3)) (path ! (length path - 1))]
            else path)
     \<and> \<not> (sqrt (squaredDistance (p ! (length p - 2)) (p ! (length p - 1))) >
            sqrt (squaredDistance (midpoint2 (p ! (length p - 3)) (p ! (length p - 1)))
                   (p ! (length p - 1))))"
proof -
  let ?n = "length path"
  let ?m = "midpoint2 (path ! (?n - 3)) (path ! (?n - 1))"
  let ?c = "squaredDistance (path ! (?n - 2)) (path ! (?n - 1)) >
            squaredDistance ?m (path ! (?n - 1))"
  let ?p = "if ?c then path[?n - 2 := ?m] else path"
  have len: "length ?p = ?n" by simp
  have first: "removeHook path = Inr ?p" by (rule removeHook_cases [OF assms])
  have i3: "?p ! (?n - 3) = path ! (?n - 3)" using assms by simp
  have i1: "?p ! (?n - 1) = path ! (?n - 1)" using assms by simp
  have moved: "?p ! (?n - 2) = ?m" if ?c using that assms by simp
  have kept: "?p ! (?n - 2) = path ! (?n - 2)" if "\<not> ?c" using that by simp
  have stable: "\<not> (squaredDistance (?p ! (?n - 2)) (?p ! (?n - 1)) >
                    squaredDistance (midpoint2 (?p ! (?n - 3)) (?p ! (?n - 1))) (?p ! (?n - 1)))"
  proof (cases ?c)
    case True
    show ?thesis unfolding i3 i1 moved [OF True] by simp
  next
    case False
    show ?thesis unfolding i3 i1 kept [OF False] using False by simp
  qed
  have second: "removeHook ?p = Inr ?p"
    using removeHook_cases [of ?p] assms stable unfolding len by simp
  show ?thesis
    apply (rule exI [of _ ?p])
    using first second len stable unfolding len by simp
qed

theorem removeHook_idempotent_witness:
  "3 \<le> length [(0, 0), (1, 0), (2, 3), (3, 0) :: Vector2d]
   \<and> removeHook [(0, 0), (1, 0), (2, 3), (3, 0)] = Inr [(0, 0), (1, 0), (2, 0), (3, 0)]
   \<and> removeHook [(0, 0), (1, 0), (2, 0), (3, 0)] = Inr [(0, 0), (1, 0), (2, 0), (3, 0)]"
proof -
  have l: "3 \<le> length [(0, 0), (1, 0), (2, 3), (3, 0) :: Vector2d]" by simp
  have once: "removeHook [(0, 0), (1, 0), (2, 3), (3, 0)] = Inr [(0, 0), (1, 0), (2, 0), (3, 0)]"
    by (simp add: removeHook_def squaredDistance_def midpoint2_def)
  from removeHook_idempotent [OF l] obtain p
    where "removeHook [(0, 0), (1, 0), (2, 3), (3, 0)] = Inr p" and "removeHook p = Inr p"
    by blast
  with once l show ?thesis by simp
qed

subsection \<open>The conversion loop\<close>

lemma convert_loop_all:
  "k \<le> length path \<Longrightarrow>
   convert_loop False cm path k = map (\<lambda>c. getWorldCoords (fst c) (snd c) cm) (rev (take k path))"
  by (induction k) (simp_all add: take_Suc_conv_app_nth)

lemma convert_loop_last:
  "0 < k \<Longrightarrow> convert_loop sm cm path k \<noteq> []
     \<and> last (convert_loop sm cm path k) = getWorldCoords (fst (path ! 0)) (snd (path ! 0)) cm"
proof (induction k)
  case 0
  then show ?case by simp
next
  case (Suc k)
  show ?case
  proof (cases "k = 0")
    case True
    then show ?thesis by simp
  next
    case False
    with Suc.IH show ?thesis by (cases sm) auto
  qed
qed

lemma convert_loop_numeral:
  "convert_loop sm cm path (numeral k) =
     (if sm \<and> pred_numeral k mod 4 \<noteq> 0 then convert_loop sm cm path (pred_numeral k)
      else getWorldCoords (fst (path ! pred_numeral k)) (snd (path ! pred_numeral k)) cm
           # convert_loop sm cm path (pred_numeral k))"
proof -
  have "convert_loop sm cm path (numeral k) = convert_loop sm cm path (Suc (pred_numeral k))"
    by (simp only: numeral_eq_Suc)
  then show ?thesis by simp
qed

subsection \<open>The two outcomes of the search\<close>

lemma createPlan_found:
  assumes s: "setStart_args e st start = Inr s"
    and g: "setGoal_args e st start goal = Inr g"
    and f: "createPath e s g (fdiv (tolerance st) (Resolution (planning_costmap e st))) = Returned True path n"
  shows "createPlan e st start goal =
    (let cm = planning_costmap e st;
         pw = convert_loop (smoother st) cm path (length path);
         evs = [CreateGraph (SizeInCellsX cm) (SizeInCellsY cm) (angle_quantizations st),
                   SetStart (fst s) (fst (snd s)) (snd (snd s)),
                   SetGoal (fst g) (fst (snd g)) (snd (snd g)),
                   CreatePath (fdiv (tolerance st) (Resolution cm))]
               @ (if raw_plan_subscribers e > 0 then [PublishRaw pw] else [])
     in if \<not> smoother st \<or> length pw < 4 then Inr (evs, pw)
        else smooth_plan e st cm evs pw pw)"
  unfolding createPlan_def Let_def s g by (simp add: f)

lemma smooth_plan_failed:
  "\<not> fst (smooth e pw cm) \<Longrightarrow>
   smooth_plan e st cm evs plan pw =
     Inr (evs @ [Smooth pw, Log (WARN (name st @ '': failed to smooth plan, ''
                         @ ''Ceres could not find a usable solution to optimize.''))], plan)"
  by (simp add: smooth_plan_def Let_def)

subsection \<open>The straight run, evaluated\<close>

lemmas example_defs = straight_run_def no_path_found_def default_planner_def four_bin_planner_def
  start_pose_def goal_pose_def turned_goal_pose_def unit_costmap_def planning_costmap_def

lemma gw_unit: "getWorldCoords x y unit_costmap = (x + 1/2, y + 1/2)"
  by (simp add: getWorldCoords_def unit_costmap_def)

lemma convert_example:
  "convert_loop True unit_costmap [(5, 0), (4, 0), (3, 0), (2, 0), (1, 0), (0, 0)] 6 = [(3/2, 1/2), (11/2, 1/2)]"
  by (simp add: convert_loop_numeral gw_unit)

lemma start_args_example:
  "setStart_args straight_run default_planner start_pose = Inr (0, 0, 0)"
  by (simp add: setStart_args_def orientation_bin_def to_uint_def example_defs)

lemma goal_args_example:
  "setGoal_args straight_run default_planner start_pose goal_pose = Inr (5, 0, 0)"
  by (simp add: setGoal_args_def orientation_bin_def to_uint_def example_defs)

lemma costmap_example: "planning_costmap straight_run default_planner = unit_costmap"
  by (simp add: planning_costmap_def default_planner_def)

lemma tolerance_example:
  "fdiv (tolerance default_planner) (Resolution unit_costmap) = Some (1 / 8)"
  by (simp add: fdiv_def default_planner_def unit_costmap_def)

lemma engine_example:
  "createPath straight_run s g tol = Returned True [(5, 0), (4, 0), (3, 0), (2, 0), (1, 0), (0, 0)] 6"
  by (simp add: straight_run_def)

lemma createPlan_straight_run:
  "createPlan straight_run default_planner start_pose goal_pose =
     Inr ([CreateGraph 10 10 1, SetStart 0 0 0, SetGoal 5 0 0, CreatePath (Some (1 / 8))],
          [(3 / 2, 1 / 2), (11 / 2, 1 / 2)])"
proof -
  have sm: "smoother default_planner" and aq: "angle_quantizations default_planner = 1"
    by (simp_all add: default_planner_def)
  have sub: "raw_plan_subscribers straight_run = 0" by (simp add: straight_run_def)
  have sz: "SizeInCellsX unit_costmap = 10" "SizeInCellsY unit_costmap = 10"
    by (simp_all add: unit_costmap_def)
  have len: "length [(5, 0), (4, 0), (3, 0), (2, 0), (1, 0), (0::real, 0::real)] = 6" by simp
  show ?thesis
    unfolding createPlan_found [OF start_args_example goal_args_example engine_example]
      Let_def costmap_example tolerance_example
    by (simp add: sm aq sub sz convert_example gw_unit)
qed

subsection \<open>A failed search\<close>

text \<open>
  C6.  Whenever \<open>createPath\<close> returns false without throwing, \<open>createPlan\<close> returns an empty
  path and logs one warning, whose reason is "no valid path found" when the reported
  iteration count is strictly below the engine's maximum and "exceeded maximum iterations"
  otherwise.
\<close>

theorem createPlan_reports_failure:
  assumes s: "setStart_args e st start = Inr s"
    and g: "setGoal_args e st start goal = Inr g"
    and f: "createPath e s g (fdiv (tolerance st) (Resolution (planning_costmap e st)))
              = Returned False path n"
  shows "createPlan e st start goal =
    Inr ([CreateGraph (SizeInCellsX (planning_costmap e st)) (SizeInCellsY (planning_costmap e st))
            (angle_quantizations st),
          SetStart (fst s) (fst (snd s)) (snd (snd s)),
          SetGoal (fst g) (fst (snd g)) (snd (snd g)),
          CreatePath (fdiv (tolerance st) (Resolution (planning_costmap e st))),
          Log (WARN (name st @ '': failed to create plan, ''
                 @ (if n <s max_iterations (a_star st) then ''no valid path found''
                    else ''exceeded maximum iterations'') @ ''.''))],
         [])"
  unfolding createPlan_def Let_def s g by (simp add: f)

lemma start_args_no_path: "setStart_args no_path_found st start = setStart_args straight_run st start"
  by (simp add: setStart_args_def no_path_found_def planning_costmap_def)

lemma goal_args_no_path: "setGoal_args no_path_found st start goal = setGoal_args straight_run st start goal"
  by (simp add: setGoal_args_def no_path_found_def planning_costmap_def)

theorem createPlan_reports_failure_witness:
  "setStart_args no_path_found default_planner start_pose = Inr (0, 0, 0)
   \<and> setGoal_args no_path_found default_planner start_pose goal_pose = Inr (5, 0, 0)
   \<and> createPath no_path_found (0, 0, 0) (5, 0, 0) (Some (1 / 8)) = Returned False [] 10
   \<and> createPlan no_path_found default_planner start_pose goal_pose =
       Inr ([CreateGraph 10 10 1, SetStart 0 0 0, SetGoal 5 0 0, CreatePath (Some (1 / 8)),
             Log (WARN ''GridBased: failed to create plan, no valid path found.'')], [])
   \<and> createPlan no_path_found ten_iteration_planner start_pose goal_pose =
       Inr ([CreateGraph 10 10 1, SetStart 0 0 0, SetGoal 5 0 0, CreatePath (Some (1 / 8)),
             Log (WARN ''GridBased: failed to create plan, exceeded maximum iterations.'')], [])"
proof -
  have s: "setStart_args no_path_found default_planner start_pose = Inr (0, 0, 0)"
    by (simp add: start_args_no_path start_args_example)
  have g: "setGoal_args no_path_found default_planner start_pose goal_pose = Inr (5, 0, 0)"
    by (simp add: goal_args_no_path goal_args_example)
  have s': "setStart_args no_path_found ten_iteration_planner start_pose = Inr (0, 0, 0)"
    by (simp add: setStart_args_def orientation_bin_def to_uint_def example_defs
        ten_iteration_planner_def)
  have g': "setGoal_args no_path_found ten_iteration_planner start_pose goal_pose = Inr (5, 0, 0)"
    by (simp add: setGoal_args_def orientation_bin_def to_uint_def example_defs
        ten_iteration_planner_def)
  have pc: "planning_costmap no_path_found default_planner = unit_costmap"
    "planning_costmap no_path_found ten_iteration_planner = unit_costmap"
    by (simp_all add: planning_costmap_def default_planner_def ten_iteration_planner_def)
  have f: "createPath no_path_found (0, 0, 0) (5, 0, 0) tol = Returned False [] 10" for tol
    by (simp add: no_path_found_def)
  have lt: "(10 :: 32 word) <s max_iterations (a_star default_planner)"
    by (simp add: default_planner_def INT_MAX_def word_sless_alt)
  have ge: "\<not> (10 :: 32 word) <s max_iterations (a_star ten_iteration_planner)"
    by (simp add: ten_iteration_planner_def)
  have nm: "name default_planner = ''GridBased''" "angle_quantizations default_planner = 1"
    "name ten_iteration_planner = ''GridBased''" "angle_quantizations ten_iteration_planner = 1"
    "tolerance ten_iteration_planner = tolerance default_planner"
    by (simp_all add: default_planner_def ten_iteration_planner_def)
  have sz: "SizeInCellsX unit_costmap = 10" "SizeInCellsY unit_costmap = 10"
    by (simp_all add: unit_costmap_def)
  have one: "createPlan no_path_found default_planner start_pose goal_pose =
       Inr ([CreateGraph 10 10 1, SetStart 0 0 0, SetGoal 5 0 0, CreatePath (Some (1 / 8)),
             Log (WARN ''GridBased: failed to create plan, no valid path found.'')], [])"
    unfolding createPlan_reports_failure [OF s g f] pc tolerance_example
    by (simp add: lt nm sz)
  have two: "createPlan no_path_found ten_iteration_planner start_pose goal_pose =
       Inr ([CreateGraph 10 10 1, SetStart 0 0 0, SetGoal 5 0 0, CreatePath (Some (1 / 8)),
             Log (WARN ''GridBased: failed to create plan, exceeded maximum iterations.'')], [])"
    unfolding createPlan_reports_failure [OF s' g' f] pc nm(5) tolerance_example
    by (simp add: ge nm sz)
  from s g f one two show ?thesis by simp
qed

subsection \<open>A short path is returned unsmoothed\<close>

text \<open>
  C9.  With a smoother configured, when the downsampled world path has fewer than four
  waypoints \<open>createPlan\<close> returns exactly that path, and none of its calls is to the
  smoother, to hook removal or to the upsampler.
\<close>

theorem createPlan_short_path_not_smoothed:
  assumes sm: "smoother st"
    and s: "setStart_args e st start = Inr s"
    and g: "setGoal_args e st start goal = Inr g"
    and f: "createPath e s g (fdiv (tolerance st) (Resolution (planning_costmap e st)))
              = Returned True path n"
    and short: "length (convert_loop True (planning_costmap e st) path (length path)) < 4"
  shows "\<exists>evs. createPlan e st start goal =
            Inr (evs, convert_loop True (planning_costmap e st) path (length path))
     \<and> evs = [CreateGraph (SizeInCellsX (planning_costmap e st))
                (SizeInCellsY (planning_costmap e st)) (angle_quantizations st),
              SetStart (fst s) (fst (snd s)) (snd (snd s)),
              SetGoal (fst g) (fst (snd g)) (snd (snd g)),
              CreatePath (fdiv (tolerance st) (Resolution (planning_costmap e st)))]
             @ (if raw_plan_subscribers e > 0
                then [PublishRaw (convert_loop True (planning_costmap e st) path (length path))]
                else [])
     \<and> \<not> list_ex is_refinement_call evs"
  unfolding createPlan_found [OF s g f] Let_def using sm short by simp

theorem createPlan_short_path_not_smoothed_witness:
  "smoother default_planner
   \<and> setStart_args straight_run default_planner start_pose = Inr (0, 0, 0)
   \<and> setGoal_args straight_run default_planner start_pose goal_pose = Inr (5, 0, 0)
   \<and> createPath straight_run (0, 0, 0) (5, 0, 0) (Some (1 / 8))
        = Returned True [(5, 0), (4, 0), (3, 0), (2, 0), (1, 0), (0, 0)] 6
   \<and> length (convert_loop True unit_costmap [(5, 0), (4, 0), (3, 0), (2, 0), (1, 0), (0, 0)] 6) < 4
   \<and> createPlan straight_run default_planner start_pose goal_pose =
        Inr ([CreateGraph 10 10 1, SetStart 0 0 0, SetGoal 5 0 0, CreatePath (Some (1 / 8))],
             [(3 / 2, 1 / 2), (11 / 2, 1 / 2)])"
proof -
  have sm: "smoother default_planner" by (simp add: default_planner_def)
  have short: "length (convert_loop True (planning_costmap straight_run default_planner)
                 [(5, 0), (4, 0), (3, 0), (2, 0), (1, 0), (0, 0)]
                 (length [(5, 0), (4, 0), (3, 0), (2, 0), (1, 0), (0::real, 0::real)])) < 4"
    by (simp add: costmap_example convert_example gw_unit)
  have pw: "convert_loop True (planning_costmap straight_run default_planner)
                 [(5, 0), (4, 0), (3, 0), (2, 0), (1, 0), (0, 0)]
                 (length [(5, 0), (4, 0), (3, 0), (2, 0), (1, 0), (0::real, 0::real)])
            = [(3 / 2, 1 / 2), (11 / 2, 1 / 2)]"
    by (simp add: costmap_example convert_example gw_unit)
  have aq: "angle_quantizations default_planner = 1" by (simp add: default_planner_def)
  have sub: "raw_plan_subscribers straight_run = 0" by (simp add: straight_run_def)
  have sz: "SizeInCellsX unit_costmap = 10" "SizeInCellsY unit_costmap = 10"
    by (simp_all add: unit_costmap_def)
  from createPlan_short_path_not_smoothed
    [OF sm start_args_example goal_args_example engine_example short]
  obtain evs where
    plan: "createPlan straight_run default_planner start_pose goal_pose =
       Inr (evs, convert_loop True (planning_costmap straight_run default_planner)
                 [(5, 0), (4, 0), (3, 0), (2, 0), (1, 0), (0, 0)]
                 (length [(5, 0), (4, 0), (3, 0), (2, 0), (1, 0), (0::real, 0::real)]))"
    and evs: "evs = [CreateGraph (SizeInCellsX (planning_costmap straight_run default_planner))
                (SizeInCellsY (planning_costmap straight_run default_planner))
                (angle_quantizations default_planner),
              SetStart (fst (0::nat, 0::nat, 0::nat)) (fst (snd (0::nat, 0::nat, 0::nat)))
                (snd (snd (0::nat, 0::nat, 0::nat))),
              SetGoal (fst (5::nat, 0::nat, 0::nat)) (fst (snd (5::nat, 0::nat, 0::nat)))
                (snd (snd (5::nat, 0::nat, 0::nat))),
              CreatePath (fdiv (tolerance default_planner)
                (Resolution (planning_costmap straight_run default_planner)))]
             @ (if raw_plan_subscribers straight_run > 0
                then [PublishRaw (convert_loop True (planning_costmap straight_run default_planner)
                  [(5, 0), (4, 0), (3, 0), (2, 0), (1, 0), (0, 0)]
                  (length [(5, 0), (4, 0), (3, 0), (2, 0), (1, 0), (0::real, 0::real)]))]
                else [])"
    by blast
  have "evs = [CreateGraph 10 10 1, SetStart 0 0 0, SetGoal 5 0 0, CreatePath (Some (1 / 8))]"
    unfolding evs costmap_example tolerance_example by (simp add: aq sub sz)
  with plan have "createPlan straight_run default_planner start_pose goal_pose =
        Inr ([CreateGraph 10 10 1, SetStart 0 0 0, SetGoal 5 0 0, CreatePath (Some (1 / 8))],
             [(3 / 2, 1 / 2), (11 / 2, 1 / 2)])"
    unfolding pw by simp
  with sm start_args_example goal_args_example show ?thesis
    by (simp add: engine_example convert_example)
qed

subsection \<open>The ends of the returned path\<close>

text \<open>
  C1 as stated fails.  On the straight run, start and goal lie at the centres of their
  cells, the smoother is configured, and the engine's six cells are downsampled to the
  indices 4 and 0: the first waypoint is the centre of cell (1, 0), neither the start's
  position nor the centre of the start cell.
\<close>

theorem createPlan_first_waypoint_counterexample:
  "createPlan straight_run default_planner start_pose goal_pose =
     Inr ([CreateGraph 10 10 1, SetStart 0 0 0, SetGoal 5 0 0, CreatePath (Some (1 / 8))],
          [(3 / 2, 1 / 2), (11 / 2, 1 / 2)])
   \<and> hd [(3 / 2, 1 / 2), (11 / 2, 1 / 2)] \<noteq> (position_x start_pose, position_y start_pose)
   \<and> hd [(3 / 2, 1 / 2), (11 / 2, 1 / 2)] \<noteq> getWorldCoords 0 0 unit_costmap"
proof (intro conjI)
  show "createPlan straight_run default_planner start_pose goal_pose =
     Inr ([CreateGraph 10 10 1, SetStart 0 0 0, SetGoal 5 0 0, CreatePath (Some (1 / 8))],
          [(3 / 2, 1 / 2), (11 / 2, 1 / 2)])"
    by (rule createPlan_straight_run)
  show "hd [(3 / 2, 1 / 2), (11 / 2, 1 / 2)] \<noteq> (position_x start_pose, position_y start_pose)"
    by (simp add: start_pose_def)
  show "hd [(3 / 2, 1 / 2), (11 / 2, 1 / 2)] \<noteq> getWorldCoords 0 0 unit_costmap"
    by (simp add: gw_unit)
qed

text \<open>
  The first waypoint the conversion loop produces.  With the smoother configured the loop
  keeps the indices that are multiples of four, counted from index 0 at the goal end, so
  the first one kept is the largest multiple of four below the length of the index path.
\<close>

lemma downsampled_index:
  assumes "i mod 4 \<noteq> 0"
  shows "(i - 1) div 4 = i div (4 :: nat)"
proof -
  have r: "i mod 4 < 4" by simp
  have "4 * (i div 4) + i mod 4 = i" by (rule mult_div_mod_eq)
  with assms have eq: "i - 1 = 4 * (i div 4) + (i mod 4 - 1)" by linarith
  have "(4 * (i div 4) + (i mod 4 - 1)) div 4 = i div 4" using r by simp
  then show ?thesis by (simp only: eq)
qed

lemma convert_loop_hd:
  "0 < k \<Longrightarrow>
   hd (convert_loop True cm path k)
     = getWorldCoords (fst (path ! (4 * ((k - 1) div 4)))) (snd (path ! (4 * ((k - 1) div 4)))) cm"
proof (induction k)
  case 0
  then show ?case by simp
next
  case (Suc i)
  show ?case
  proof (cases "i mod 4 = 0")
    case True
    with mult_div_mod_eq [of 4 i] have "4 * (i div 4) = i" by simp
    with True show ?thesis by simp
  next
    case False
    then have pos: "0 < i" by (cases i) simp_all
    from Suc.IH [OF pos] False downsampled_index [OF False] show ?thesis by simp
  qed
qed

lemma convert_loop_all_hd:
  assumes "path \<noteq> []"
  shows "hd (convert_loop False cm path (length path))
     = getWorldCoords (fst (path ! (length path - 1))) (snd (path ! (length path - 1))) cm"
  using assms convert_loop_all [of "length path" path cm]
  by (simp add: hd_map hd_rev last_conv_nth)

text \<open>What the smoothing part of \<open>createPlan\<close> does to the first and the last waypoint.\<close>

lemma removeHook_keeps_ends:
  assumes "3 \<le> length p"
  shows "\<exists>q. removeHook p = Inr q \<and> length q = length p \<and> hd q = hd p \<and> last q = last p"
proof -
  have ne: "p \<noteq> []" using assms by auto
  have idx: "length p - 2 \<noteq> length p - 1" "length p - 2 \<noteq> 0" using assms by simp_all
  have "last (p[length p - 2 := v]) = last p" and "hd (p[length p - 2 := v]) = hd p" for v
    using ne idx by (simp_all add: last_conv_nth hd_conv_nth)
  then show ?thesis
    unfolding removeHook_cases [OF assms] by simp
qed

lemma length_resize: "length (resize n xs) = n"
  by (simp add: resize_def)

lemma smooth_plan_ends:
  assumes len: "4 \<le> length pw"
    and smooth_ok: "fst (smooth e pw cm) \<longrightarrow>
           length (snd (smooth e pw cm)) = length pw
           \<and> hd (snd (smooth e pw cm)) = hd pw \<and> last (snd (smooth e pw cm)) = last pw"
    and up_ok: "\<forall>q. q \<noteq> [] \<longrightarrow>
           snd (upsample e q (upsampling_ratio st)) \<noteq> []
           \<and> hd (snd (upsample e q (upsampling_ratio st))) = hd q
           \<and> last (snd (upsample e q (upsampling_ratio st))) = last q
           \<and> (\<not> fst (upsample e q (upsampling_ratio st))
                \<longrightarrow> snd (upsample e q (upsampling_ratio st)) = q)"
  shows "\<exists>evs' plan. smooth_plan e st cm evs pw pw = Inr (evs', plan)
           \<and> plan \<noteq> [] \<and> hd plan = hd pw \<and> last plan = last pw"
proof (cases "fst (smooth e pw cm)")
  case False
  from smooth_plan_failed [OF this] len show ?thesis by auto
next
  case True
  let ?pw1 = "snd (smooth e pw cm)"
  from True smooth_ok have l1: "length ?pw1 = length pw" and h1: "hd ?pw1 = hd pw"
    and e1: "last ?pw1 = last pw"
    by simp_all
  from l1 len have "3 \<le> length ?pw1" by simp
  from removeHook_keeps_ends [OF this] obtain pw2
    where rh: "removeHook ?pw1 = Inr pw2" and l2: "length pw2 = length pw"
      and h2: "hd pw2 = hd pw" and e2: "last pw2 = last pw"
    using l1 h1 e1 by auto
  have ne2: "pw2 \<noteq> []" using l2 len by auto
  let ?up = "upsample e pw2 (upsampling_ratio st)"
  from up_ok ne2 have u: "snd ?up \<noteq> []" "hd (snd ?up) = hd pw2" "last (snd ?up) = last pw2"
    "\<not> fst ?up \<Longrightarrow> snd ?up = pw2"
    by simp_all
  show ?thesis
  proof (cases "upsampler st")
    case False
    then show ?thesis
      unfolding smooth_plan_def Let_def using True rh l2 h2 e2 ne2 by simp
  next
    case up: True
    show ?thesis
    proof (cases "fst ?up")
      case True
      with up \<open>fst (smooth e pw cm)\<close> rh l2 u h2 e2 show ?thesis
        unfolding smooth_plan_def Let_def by (simp add: length_resize)
    next
      case False
      with up \<open>fst (smooth e pw cm)\<close> rh l2 u(4) h2 e2 ne2 show ?thesis
        unfolding smooth_plan_def Let_def by simp
    qed
  qed
qed

text \<open>The run around the corner, evaluated: it passes through the smoother.\<close>

lemma convert_corner:
  "convert_loop True unit_costmap
     [(9, 3), (9, 2), (9, 1), (9, 0), (8, 0), (7, 0), (6, 0), (5, 0), (4, 0), (3, 0),
      (2, 0), (1, 0), (0, 0)] 13 = [(1 / 2, 1 / 2), (9 / 2, 1 / 2), (17 / 2, 1 / 2), (19 / 2, 7 / 2)]"
  by (simp add: convert_loop_numeral gw_unit)

lemma removeHook_corner:
  "removeHook [(1 / 2, 1 / 2), (9 / 2, 1 / 2), (17 / 2, 1 / 2), (19 / 2, 7 / 2)] =
     Inr [(1 / 2, 1 / 2), (9 / 2, 1 / 2), (7, 2), (19 / 2, 7 / 2)]"
  by (simp add: removeHook_def squaredDistance_def midpoint2_def power2_eq_square)

lemma createPlan_corner_run:
  "createPlan corner_run default_planner start_pose corner_goal_pose =
     Inr ([CreateGraph 10 10 1, SetStart 0 0 0, SetGoal 9 3 0, CreatePath (Some (1 / 8)),
           Smooth [(1 / 2, 1 / 2), (9 / 2, 1 / 2), (17 / 2, 1 / 2), (19 / 2, 7 / 2)],
           RemoveHook [(1 / 2, 1 / 2), (9 / 2, 1 / 2), (17 / 2, 1 / 2), (19 / 2, 7 / 2)]],
          [(1 / 2, 1 / 2), (9 / 2, 1 / 2), (7, 2), (19 / 2, 7 / 2)])"
proof -
  have s: "setStart_args corner_run default_planner start_pose = Inr (0, 0, 0)"
    by (simp add: setStart_args_def orientation_bin_def to_uint_def example_defs corner_run_def)
  have g: "setGoal_args corner_run default_planner start_pose corner_goal_pose = Inr (9, 3, 0)"
    by (simp add: setGoal_args_def orientation_bin_def to_uint_def example_defs corner_run_def
        corner_goal_pose_def)
  have f: "createPath corner_run (0, 0, 0) (9, 3, 0) tol = Returned True
        [(9, 3), (9, 2), (9, 1), (9, 0), (8, 0), (7, 0), (6, 0), (5, 0), (4, 0), (3, 0),
         (2, 0), (1, 0), (0, 0)] 13" for tol
    by (simp add: corner_run_def)
  have pc: "planning_costmap corner_run default_planner = unit_costmap"
    by (simp add: planning_costmap_def default_planner_def)
  have len: "length [(9, 3), (9, 2), (9, 1), (9, 0), (8, 0), (7, 0), (6, 0), (5, 0), (4, 0),
         (3, 0), (2, 0), (1, 0), (0 :: real, 0 :: real)] = 13" by simp
  have st: "smoother default_planner" "\<not> upsampler default_planner"
    "angle_quantizations default_planner = 1"
    by (simp_all add: default_planner_def)
  have e: "raw_plan_subscribers corner_run = 0" "smoothed_plan_subscribers corner_run = 0"
    "smooth corner_run = (\<lambda>pw cm. (True, pw))"
    by (simp_all add: corner_run_def straight_run_def)
  have sz: "SizeInCellsX unit_costmap = 10" "SizeInCellsY unit_costmap = 10"
    by (simp_all add: unit_costmap_def)
  show ?thesis
    unfolding createPlan_found [OF s g f] Let_def pc tolerance_example len smooth_plan_def
    by (simp add: st e sz convert_corner removeHook_corner)
qed

text \<open>
  C1, amended.  Let the search succeed with a non-empty index path that runs from the
  goal's cell at index 0 to the start's cell at index \<open>n - 1\<close> (the cells \<open>worldToMap\<close> gives
  for the two poses), let a successful smoother keep the number of waypoints and the first
  and the last of them, and let the upsampler keep the first and the last waypoint and
  leave the path alone when it fails.  Then, for every costmap, start, goal and
  configuration, \<open>createPlan\<close> returns a non-empty path whose last waypoint is the centre of
  the goal's cell.  Its first waypoint is the centre of the start's cell when no smoother
  is configured; with a smoother it is the centre of the cell at index
  \<open>4 * ((n - 1) div 4)\<close> of the index path, the first index the downsampling by four keeps,
  which is the start's cell when \<open>n - 1\<close> is a multiple of four.  Without a smoother the path
  is the whole index path in reverse, each cell at its centre.
\<close>

theorem createPlan_endpoints:
  assumes s: "setStart_args e st start = Inr (smx, smy, sbin)"
    and g: "setGoal_args e st start goal = Inr (gmx, gmy, gbin)"
    and f: "createPath e (smx, smy, sbin) (gmx, gmy, gbin)
              (fdiv (tolerance st) (Resolution (planning_costmap e st)))
              = Returned True path n"
    and ne: "path \<noteq> []"
    and goal_end: "path ! 0 = (real gmx, real gmy)"
    and start_end: "path ! (length path - 1) = (real smx, real smy)"
    and smooth_ok: "\<forall>pw cm. fst (smooth e pw cm) \<longrightarrow>
           length (snd (smooth e pw cm)) = length pw
           \<and> hd (snd (smooth e pw cm)) = hd pw \<and> last (snd (smooth e pw cm)) = last pw"
    and up_ok: "\<forall>q r. q \<noteq> [] \<longrightarrow>
           snd (upsample e q r) \<noteq> []
           \<and> hd (snd (upsample e q r)) = hd q \<and> last (snd (upsample e q r)) = last q
           \<and> (\<not> fst (upsample e q r) \<longrightarrow> snd (upsample e q r) = q)"
  shows "\<exists>evs plan. createPlan e st start goal = Inr (evs, plan)
     \<and> plan \<noteq> []
     \<and> last plan = getWorldCoords (real gmx) (real gmy) (planning_costmap e st)
     \<and> hd plan =
          (if smoother st
           then getWorldCoords (fst (path ! (4 * ((length path - 1) div 4))))
                  (snd (path ! (4 * ((length path - 1) div 4)))) (planning_costmap e st)
           else getWorldCoords (real smx) (real smy) (planning_costmap e st))
     \<and> (smoother st \<and> (length path - 1) mod 4 = 0 \<longrightarrow>
          hd plan = getWorldCoords (real smx) (real smy) (planning_costmap e st))
     \<and> (\<not> smoother st \<longrightarrow>
          plan = map (\<lambda>c. getWorldCoords (fst c) (snd c) (planning_costmap e st)) (rev path))"
proof -
  let ?cm = "planning_costmap e st"
  let ?pw = "convert_loop (smoother st) ?cm path (length path)"
  let ?k = "4 * ((length path - 1) div 4)"
  let ?first = "if smoother st
           then getWorldCoords (fst (path ! ?k)) (snd (path ! ?k)) ?cm
           else getWorldCoords (real smx) (real smy) ?cm"
  have pos: "0 < length path" using ne by simp
  have l: "?pw \<noteq> []" "last ?pw = getWorldCoords (real gmx) (real gmy) ?cm"
    using convert_loop_last [OF pos, of "smoother st" ?cm] goal_end by simp_all
  have h: "hd ?pw = ?first"
    using convert_loop_hd [OF pos, of ?cm path] convert_loop_all_hd [OF ne, of ?cm] start_end
    by simp
  have aligned: "smoother st \<and> (length path - 1) mod 4 = 0 \<longrightarrow>
          ?first = getWorldCoords (real smx) (real smy) ?cm"
  proof (intro impI)
    assume a: "smoother st \<and> (length path - 1) mod 4 = 0"
    then have "(length path - 1) mod 4 = 0" by (rule conjunct2)
    with mult_div_mod_eq [of 4 "length path - 1"] have "?k = length path - 1"
      by (simp del: One_nat_def)
    with a start_end show "?first = getWorldCoords (real smx) (real smy) ?cm" by simp
  qed
  have all: "\<not> smoother st \<longrightarrow>
          ?pw = map (\<lambda>c. getWorldCoords (fst c) (snd c) ?cm) (rev path)"
    using convert_loop_all [of "length path" path ?cm] by simp
  have "\<exists>evs plan. createPlan e st start goal = Inr (evs, plan)
     \<and> plan \<noteq> [] \<and> hd plan = hd ?pw \<and> last plan = last ?pw
     \<and> (\<not> smoother st \<longrightarrow> plan = ?pw)"
  proof (cases "\<not> smoother st \<or> length ?pw < 4")
    case True
    have "\<exists>evs. createPlan e st start goal = Inr (evs, ?pw)"
      unfolding createPlan_found [OF s g f] Let_def using True by auto
    with l show ?thesis by auto
  next
    case False
    then have sm: "smoother st" and len: "4 \<le> length ?pw" by simp_all
    from smooth_ok have so: "fst (smooth e ?pw ?cm) \<longrightarrow>
           length (snd (smooth e ?pw ?cm)) = length ?pw
           \<and> hd (snd (smooth e ?pw ?cm)) = hd ?pw \<and> last (snd (smooth e ?pw ?cm)) = last ?pw"
      by blast
    from up_ok have uo: "\<forall>q. q \<noteq> [] \<longrightarrow>
           snd (upsample e q (upsampling_ratio st)) \<noteq> []
           \<and> hd (snd (upsample e q (upsampling_ratio st))) = hd q
           \<and> last (snd (upsample e q (upsampling_ratio st))) = last q
           \<and> (\<not> fst (upsample e q (upsampling_ratio st))
                \<longrightarrow> snd (upsample e q (upsampling_ratio st)) = q)"
      by blast
    from smooth_plan_ends [OF len so uo]
    have "\<exists>evs plan. createPlan e st start goal = Inr (evs, plan)
           \<and> plan \<noteq> [] \<and> hd plan = hd ?pw \<and> last plan = last ?pw"
      unfolding createPlan_found [OF s g f] Let_def using False by simp
    with sm show ?thesis by auto
  qed
  then obtain evs plan where r: "createPlan e st start goal = Inr (evs, plan)"
    "plan \<noteq> []" "hd plan = hd ?pw" "last plan = last ?pw" "\<not> smoother st \<longrightarrow> plan = ?pw"
    by blast
  from r(3) h have hp: "hd plan = ?first" by simp
  from r(4) l(2) have lp: "last plan = getWorldCoords (real gmx) (real gmy) ?cm" by simp
  from hp aligned have al: "smoother st \<and> (length path - 1) mod 4 = 0 \<longrightarrow>
          hd plan = getWorldCoords (real smx) (real smy) ?cm" by simp
  from r(5) all have ap: "\<not> smoother st \<longrightarrow>
          plan = map (\<lambda>c. getWorldCoords (fst c) (snd c) ?cm) (rev path)" by simp
  show ?thesis
    by (rule exI [of _ evs], rule exI [of _ plan]) (intro conjI r(1) r(2) lp hp al ap)
qed

theorem createPlan_endpoints_witness:
  "setStart_args corner_run default_planner start_pose = Inr (0, 0, 0)
   \<and> setGoal_args corner_run default_planner start_pose corner_goal_pose = Inr (9, 3, 0)
   \<and> createPath corner_run (0, 0, 0) (9, 3, 0) (Some (1 / 8)) =
       Returned True
        [(9, 3), (9, 2), (9, 1), (9, 0), (8, 0), (7, 0), (6, 0), (5, 0), (4, 0), (3, 0),
         (2, 0), (1, 0), (0, 0)] 13
   \<and> smooth corner_run = (\<lambda>pw cm. (True, pw))
   \<and> upsample corner_run = (\<lambda>pw ratio. (True, pw))
   \<and> createPlan corner_run default_planner start_pose corner_goal_pose =
       Inr ([CreateGraph 10 10 1, SetStart 0 0 0, SetGoal 9 3 0, CreatePath (Some (1 / 8)),
             Smooth [(1 / 2, 1 / 2), (9 / 2, 1 / 2), (17 / 2, 1 / 2), (19 / 2, 7 / 2)],
             RemoveHook [(1 / 2, 1 / 2), (9 / 2, 1 / 2), (17 / 2, 1 / 2), (19 / 2, 7 / 2)]],
            [(1 / 2, 1 / 2), (9 / 2, 1 / 2), (7, 2), (19 / 2, 7 / 2)])
   \<and> hd [(1 / 2, 1 / 2), (9 / 2, 1 / 2), (7, 2), (19 / 2, 7 / 2)]
       = getWorldCoords 0 0 unit_costmap
   \<and> last [(1 / 2, 1 / 2), (9 / 2, 1 / 2), (7, 2), (19 / 2, 7 / 2)]
       = getWorldCoords 9 3 unit_costmap
   \<and> getWorldCoords 0 0 unit_costmap = (position_x start_pose, position_y start_pose)
   \<and> getWorldCoords 9 3 unit_costmap
       = (position_x corner_goal_pose, position_y corner_goal_pose)
   \<and> snd (projr (createPlan straight_run default_planner start_pose goal_pose)) =
       [(3 / 2, 1 / 2), (11 / 2, 1 / 2)]
   \<and> hd (snd (projr (createPlan straight_run default_planner start_pose goal_pose)))
       = getWorldCoords 1 0 unit_costmap
   \<and> last (snd (projr (createPlan straight_run default_planner start_pose goal_pose)))
       = getWorldCoords 5 0 unit_costmap
   \<and> snd (projr (createPlan straight_run unsmoothed_planner start_pose goal_pose)) =
       [(1 / 2, 1 / 2), (3 / 2, 1 / 2), (5 / 2, 1 / 2), (7 / 2, 1 / 2), (9 / 2, 1 / 2),
        (11 / 2, 1 / 2)]"
proof -
  let ?corner = "[(9, 3), (9, 2), (9, 1), (9, 0), (8, 0), (7, 0), (6, 0), (5, 0), (4, 0),
         (3, 0), (2, 0), (1, 0), (0 :: real, 0 :: real)]"
  let ?straight = "[(5, 0), (4, 0), (3, 0), (2, 0), (1, 0), (0 :: real, 0 :: real)]"
  have s: "setStart_args corner_run default_planner start_pose = Inr (0, 0, 0)"
    by (simp add: setStart_args_def orientation_bin_def to_uint_def example_defs corner_run_def)
  have g: "setGoal_args corner_run default_planner start_pose corner_goal_pose = Inr (9, 3, 0)"
    by (simp add: setGoal_args_def orientation_bin_def to_uint_def example_defs corner_run_def
        corner_goal_pose_def)
  have f: "createPath corner_run (0, 0, 0) (9, 3, 0) tol = Returned True ?corner 13" for tol
    by (simp add: corner_run_def)
  have sm: "smooth corner_run = (\<lambda>pw cm. (True, pw))"
    and up: "upsample corner_run = (\<lambda>pw ratio. (True, pw))"
    by (simp_all add: corner_run_def straight_run_def)
  have sm': "smooth straight_run = (\<lambda>pw cm. (True, pw))"
    and up': "upsample straight_run = (\<lambda>pw ratio. (True, pw))"
    by (simp_all add: straight_run_def)
  have contract: "\<forall>pw cm. fst (smooth e pw cm) \<longrightarrow>
           length (snd (smooth e pw cm)) = length pw
           \<and> hd (snd (smooth e pw cm)) = hd pw \<and> last (snd (smooth e pw cm)) = last pw"
    "\<forall>q r. q \<noteq> [] \<longrightarrow>
           snd (upsample e q r) \<noteq> []
           \<and> hd (snd (upsample e q r)) = hd q \<and> last (snd (upsample e q r)) = last q
           \<and> (\<not> fst (upsample e q r) \<longrightarrow> snd (upsample e q r) = q)"
    if "smooth e = (\<lambda>pw cm. (True, pw))" and "upsample e = (\<lambda>pw ratio. (True, pw))"
    for e :: collaborators
    using that by simp_all
  have pc: "planning_costmap corner_run default_planner = unit_costmap"
    "planning_costmap straight_run default_planner = unit_costmap"
    "planning_costmap straight_run unsmoothed_planner = unit_costmap"
    by (simp_all add: planning_costmap_def unsmoothed_planner_def default_planner_def)
  have sd: "smoother default_planner" and ns: "\<not> smoother unsmoothed_planner"
    by (simp_all add: unsmoothed_planner_def default_planner_def)

  have c_ne: "?corner \<noteq> []" by simp
  have c_goal: "?corner ! 0 = (real 9, real 3)" by simp
  have c_start: "?corner ! (length ?corner - 1) = (real 0, real 0)" by simp
  from createPlan_endpoints [OF s g f c_ne c_goal c_start contract [OF sm up]]
  obtain evs plan where
    "createPlan corner_run default_planner start_pose corner_goal_pose = Inr (evs, plan)"
    and "last plan = getWorldCoords (real 9) (real 3)
                       (planning_costmap corner_run default_planner)"
    and "smoother default_planner \<and> (length ?corner - 1) mod 4 = 0 \<longrightarrow>
          hd plan = getWorldCoords (real 0) (real 0) (planning_costmap corner_run default_planner)"
    by blast
  then have corner_ends:
    "hd [(1 / 2, 1 / 2), (9 / 2, 1 / 2), (7, 2), (19 / 2, 7 / 2)] = getWorldCoords 0 0 unit_costmap"
    "last [(1 / 2, 1 / 2), (9 / 2, 1 / 2), (7, 2), (19 / 2, 7 / 2)] = getWorldCoords 9 3 unit_costmap"
    using sd by (simp_all add: createPlan_corner_run pc)

  have t_ne: "?straight \<noteq> []" by simp
  have t_goal: "?straight ! 0 = (real 5, real 0)" by simp
  have t_start: "?straight ! (length ?straight - 1) = (real 0, real 0)" by simp
  from createPlan_endpoints
    [OF start_args_example goal_args_example engine_example t_ne t_goal t_start
        contract [OF sm' up']]
  obtain evs1 plan1 where
    "createPlan straight_run default_planner start_pose goal_pose = Inr (evs1, plan1)"
    and "last plan1 = getWorldCoords (real 5) (real 0)
                       (planning_costmap straight_run default_planner)"
    and "hd plan1 =
          (if smoother default_planner
           then getWorldCoords (fst (?straight ! (4 * ((length ?straight - 1) div 4))))
                  (snd (?straight ! (4 * ((length ?straight - 1) div 4))))
                  (planning_costmap straight_run default_planner)
           else getWorldCoords (real 0) (real 0) (planning_costmap straight_run default_planner))"
    by blast
  then have straight_ends:
    "hd (snd (projr (createPlan straight_run default_planner start_pose goal_pose)))
       = getWorldCoords 1 0 unit_costmap"
    "last (snd (projr (createPlan straight_run default_planner start_pose goal_pose)))
       = getWorldCoords 5 0 unit_costmap"
    using sd by (simp_all add: pc)
  have straight_plan: "snd (projr (createPlan straight_run default_planner start_pose goal_pose)) =
       [(3 / 2, 1 / 2), (11 / 2, 1 / 2)]"
    by (simp add: createPlan_straight_run)

  have s': "setStart_args straight_run unsmoothed_planner start_pose = Inr (0, 0, 0)"
    by (simp add: setStart_args_def orientation_bin_def to_uint_def example_defs
        unsmoothed_planner_def)
  have g': "setGoal_args straight_run unsmoothed_planner start_pose goal_pose = Inr (5, 0, 0)"
    by (simp add: setGoal_args_def orientation_bin_def to_uint_def example_defs
        unsmoothed_planner_def)
  from createPlan_endpoints
    [OF s' g' engine_example t_ne t_goal t_start contract [OF sm' up']]
  obtain evs2 plan2 where
    "createPlan straight_run unsmoothed_planner start_pose goal_pose = Inr (evs2, plan2)"
    and "\<not> smoother unsmoothed_planner \<longrightarrow>
          plan2 = map (\<lambda>c. getWorldCoords (fst c) (snd c)
                     (planning_costmap straight_run unsmoothed_planner)) (rev ?straight)"
    by blast
  with ns have all: "snd (projr (createPlan straight_run unsmoothed_planner start_pose goal_pose)) =
       [(1 / 2, 1 / 2), (3 / 2, 1 / 2), (5 / 2, 1 / 2), (7 / 2, 1 / 2), (9 / 2, 1 / 2),
        (11 / 2, 1 / 2)]"
    by (simp add: pc gw_unit)
  have poses: "getWorldCoords 0 0 unit_costmap = (position_x start_pose, position_y start_pose)"
    "getWorldCoords 9 3 unit_costmap
       = (position_x corner_goal_pose, position_y corner_goal_pose)"
    by (simp_all add: gw_unit start_pose_def corner_goal_pose_def)
  from s g f [of "Some (1 / 8)"] sm up createPlan_corner_run corner_ends poses straight_plan
    straight_ends all
  show ?thesis by simp
qed

subsection \<open>The orientation bin of the goal\<close>

text \<open>Whatever the goal pose, the bin handed to \<open>setGoal\<close> is the bin of the start's yaw.\<close>

lemma goal_bin_is_start_bin:
  "setGoal_args e st start goal = Inr (mx, my, b) \<Longrightarrow>
   orientation_bin (orientation_yaw start) (angle_bin_size st) = Inr b"
  by (auto simp: setGoal_args_def Let_def split: prod.splits sum.splits)

text \<open>
  C2 (the code at a failing input).  With four bins, a start facing along x and a goal
  turned by a quarter turn, the goal's own yaw falls in bin 1, but \<open>createPlan\<close> calls
  \<open>setGoal\<close> with bin 0, the bin of the start.
\<close>

theorem setGoal_uses_start_orientation:
  "setStart_args straight_run four_bin_planner start_pose = Inr (0, 0, 0)
   \<and> setGoal_args straight_run four_bin_planner start_pose turned_goal_pose = Inr (5, 0, 0)
   \<and> orientation_bin (orientation_yaw start_pose) (angle_bin_size four_bin_planner) = Inr 0
   \<and> orientation_bin (orientation_yaw turned_goal_pose) (angle_bin_size four_bin_planner) = Inr 1
   \<and> createPlan straight_run four_bin_planner start_pose turned_goal_pose =
       Inr ([CreateGraph 10 10 4, SetStart 0 0 0, SetGoal 5 0 0, CreatePath (Some (1 / 8))],
            [(3 / 2, 1 / 2), (11 / 2, 1 / 2)])"
proof -
  have s: "setStart_args straight_run four_bin_planner start_pose = Inr (0, 0, 0)"
    by (simp add: setStart_args_def orientation_bin_def to_uint_def example_defs)
  have g: "setGoal_args straight_run four_bin_planner start_pose turned_goal_pose = Inr (5, 0, 0)"
    by (simp add: setGoal_args_def orientation_bin_def to_uint_def example_defs)
  have b0: "orientation_bin (orientation_yaw start_pose) (angle_bin_size four_bin_planner) = Inr 0"
    by (simp add: orientation_bin_def to_uint_def example_defs)
  have b1: "orientation_bin (orientation_yaw turned_goal_pose) (angle_bin_size four_bin_planner) = Inr 1"
    by (simp add: orientation_bin_def to_uint_def example_defs)
  have pc: "planning_costmap straight_run four_bin_planner = unit_costmap"
    by (simp add: planning_costmap_def four_bin_planner_def default_planner_def)
  have st: "smoother four_bin_planner" "angle_quantizations four_bin_planner = 4"
    "tolerance four_bin_planner = tolerance default_planner"
    by (simp_all add: four_bin_planner_def default_planner_def)
  have sub: "raw_plan_subscribers straight_run = 0" by (simp add: straight_run_def)
  have sz: "SizeInCellsX unit_costmap = 10" "SizeInCellsY unit_costmap = 10"
    by (simp_all add: unit_costmap_def)
  have "createPlan straight_run four_bin_planner start_pose turned_goal_pose =
       Inr ([CreateGraph 10 10 4, SetStart 0 0 0, SetGoal 5 0 0, CreatePath (Some (1 / 8))],
            [(3 / 2, 1 / 2), (11 / 2, 1 / 2)])"
    unfolding createPlan_found [OF s g engine_example] Let_def pc st(3) tolerance_example
    by (simp add: st sub sz convert_example gw_unit)
  with s g b0 b1 show ?thesis by simp
qed

subsection \<open>configure\<close>

lemma sint_INT_MAX: "sint INT_MAX = 2147483647"
  by (simp add: INT_MAX_def)

lemma sle_INT_MAX: "(w :: 32 word) \<le>s INT_MAX"
  using sint_lt [of w] by (simp add: word_sle_eq sint_INT_MAX)

lemma configure_defaults:
  "configure default_parameters ''GridBased'' ''map'' unit_costmap =
     ([INFO ''maximum iteration selected as <= 0, disabling maximum iterations.'',
       INFO (''Configured plugin GridBased of type SmacPlanner with ''
             @ ''travel cost %.2f, tolerance %.2f, maximum iterations %i, ''
             @ ''max on approach iterations %i, and %s. Using motion model: %s.'')],
      Inr default_planner)"
  by (simp add: configure_def default_parameters_def default_planner_def unit_costmap_def
      Let_def fdiv_def INT_MAX_def fromString_def word_sle_eq word_sless_alt)

text \<open>
  C10.  Whatever the parameters, a planner that \<open>configure\<close> returns has its engine
  initialised with the on-approach limit \<open>INT_MAX\<close> = 2147483647: no parameter is read for
  it.  The global iteration limit is never above it, so an on-approach count, which is at
  most the iteration count, reaches its limit only once the iteration count has reached
  the global limit.
\<close>

theorem configure_on_approach_limit:
  assumes "configure ps nm frame cm = (logs, Inr st)"
  shows "max_on_approach_iterations (a_star st) = INT_MAX
     \<and> sint (max_on_approach_iterations (a_star st)) = 2147483647
     \<and> max_iterations (a_star st) \<le>s max_on_approach_iterations (a_star st)
     \<and> (\<forall>on_approach iterations :: int.
          on_approach \<le> iterations
          \<and> sint (max_on_approach_iterations (a_star st)) \<le> on_approach
          \<longrightarrow> sint (max_iterations (a_star st)) \<le> iterations)"
proof -
  have nonpos: "\<not> INT_MAX \<le>s 0" by (simp add: word_sle_eq sint_INT_MAX)
  from assms have moa: "max_on_approach_iterations (a_star st) = INT_MAX"
    unfolding configure_def Let_def using nonpos
    by (auto split: if_splits)
  have le: "max_iterations (a_star st) \<le>s max_on_approach_iterations (a_star st)"
    unfolding moa by (rule sle_INT_MAX)
  then have "sint (max_iterations (a_star st)) \<le> sint (max_on_approach_iterations (a_star st))"
    by (simp add: word_sle_eq)
  then have "\<forall>on_approach iterations :: int.
          on_approach \<le> iterations
          \<and> sint (max_on_approach_iterations (a_star st)) \<le> on_approach
          \<longrightarrow> sint (max_iterations (a_star st)) \<le> iterations"
    by auto
  with moa le show ?thesis by (simp add: sint_INT_MAX)
qed

theorem configure_on_approach_limit_witness:
  "configure default_parameters ''GridBased'' ''map'' unit_costmap =
     ([INFO ''maximum iteration selected as <= 0, disabling maximum iterations.'',
       INFO (''Configured plugin GridBased of type SmacPlanner with ''
             @ ''travel cost %.2f, tolerance %.2f, maximum iterations %i, ''
             @ ''max on approach iterations %i, and %s. Using motion model: %s.'')],
      Inr default_planner)
   \<and> max_on_approach_iterations (a_star default_planner) = INT_MAX
   \<and> max_iterations (a_star default_planner) \<le>s max_on_approach_iterations (a_star default_planner)"
  using configure_on_approach_limit [OF configure_defaults] configure_defaults by blast

text \<open>
  C7 as stated fails.  With the motion model name \<open>HYBRID\<close> and every other parameter at
  its default, \<open>configure\<close> does not exit: it returns the default planner with the engine's
  motion model set to \<open>UNKNOWN\<close>.
\<close>

theorem configure_unknown_model_counterexample:
  "snd (configure unknown_model_parameters ''GridBased'' ''map'' unit_costmap) =
     Inr (default_planner\<lparr>a_star := (a_star default_planner)\<lparr>motion_model := UNKNOWN_MODEL\<rparr>\<rparr>)
   \<and> snd (configure unknown_model_parameters ''GridBased'' ''map'' unit_costmap) \<noteq> Inl (Exit (- 1))"
  by (simp add: configure_def unknown_model_parameters_def default_parameters_def
      default_planner_def unit_costmap_def
      Let_def fdiv_def INT_MAX_def fromString_def word_sle_eq word_sless_alt)

text \<open>
  C7, amended.  If the motion model name is none of the five recognised ones (and the
  travel cost scale lies in [0, 1], the one fatal check), \<open>configure\<close> first logs a warning
  that quotes the name and lists the valid options, and then goes on to return a planner
  whose engine holds the motion model \<open>UNKNOWN\<close>; for that model \<open>initMotionModel\<close> throws a
  \<open>runtime_error\<close> whatever the grid width, the number of bins and the turning radius.
\<close>

theorem configure_unknown_model_warns:
  assumes unk: "param_motion_model_for_search ps \<notin>
             {''MOORE'', ''VON_NEUMANN'', ''DUBIN'', ''REEDS_SHEPP'', ''BALKCOM_MASON''}"
    and scale: "0 \<le> param_travel_cost_scale ps \<and> param_travel_cost_scale ps \<le> 1"
  shows "\<exists>logs st. configure ps nm frame cm =
           (WARN (''Unable to get MotionModel search type. Given ''
                     @ [CHR 0x27] @ param_motion_model_for_search ps @ [CHR 0x27] @ '', ''
                     @ ''valid options are MOORE, VON_NEUMANN, DUBIN, REEDS_SHEPP, BALKCOM_MASON.'')
            # logs, Inr st)
     \<and> motion_model (a_star st) = UNKNOWN_MODEL
     \<and> (\<forall>sx n r. \<exists>what. initMotionModel (motion_model (a_star st)) sx n r
                         = Inl (runtime_error what))"
proof -
  from unk have m: "fromString (param_motion_model_for_search ps) = UNKNOWN_MODEL"
    by (simp add: fromString_def)
  have thrown: "\<forall>sx n r. \<exists>what. initMotionModel UNKNOWN_MODEL sx n r = Inl (runtime_error what)"
    by (simp add: initMotionModel_def)
  from scale have ok: "\<not> (param_travel_cost_scale ps > 1 \<or> param_travel_cost_scale ps < 0)"
    by auto
  show ?thesis
    unfolding configure_def Let_def m using ok thrown by simp
qed

theorem configure_unknown_model_warns_witness:
  "param_motion_model_for_search unknown_model_parameters \<notin>
             {''MOORE'', ''VON_NEUMANN'', ''DUBIN'', ''REEDS_SHEPP'', ''BALKCOM_MASON''}
   \<and> 0 \<le> param_travel_cost_scale unknown_model_parameters
   \<and> param_travel_cost_scale unknown_model_parameters \<le> 1
   \<and> fst (configure unknown_model_parameters ''GridBased'' ''map'' unit_costmap) =
       [WARN (''Unable to get MotionModel search type. Given '' @ [CHR 0x27] @ ''HYBRID''
              @ [CHR 0x27] @ '', ''
              @ ''valid options are MOORE, VON_NEUMANN, DUBIN, REEDS_SHEPP, BALKCOM_MASON.''),
        INFO ''maximum iteration selected as <= 0, disabling maximum iterations.'',
        INFO (''Configured plugin GridBased of type SmacPlanner with ''
             @ ''travel cost %.2f, tolerance %.2f, maximum iterations %i, ''
             @ ''max on approach iterations %i, and %s. Using motion model: %s.'')]
   \<and> initMotionModel UNKNOWN_MODEL 10 1 1 =
       Inl (runtime_error
          (''Invalid motion model for SE2 node. Please select between''
           @ '' Dubin (Ackermann forward only),''
           @ '' Reeds-Shepp (Ackermann forward and back),''
           @ '' or Balkcom-Mason (Differential drive and omnidirectional) models.''))"
proof -
  have unk: "param_motion_model_for_search unknown_model_parameters \<notin>
             {''MOORE'', ''VON_NEUMANN'', ''DUBIN'', ''REEDS_SHEPP'', ''BALKCOM_MASON''}"
    by (simp add: unknown_model_parameters_def)
  have scale: "0 \<le> param_travel_cost_scale unknown_model_parameters
      \<and> param_travel_cost_scale unknown_model_parameters \<le> 1"
    by (simp add: unknown_model_parameters_def default_parameters_def)
  have logs: "fst (configure unknown_model_parameters ''GridBased'' ''map'' unit_costmap) =
       [WARN (''Unable to get MotionModel search type. Given '' @ [CHR 0x27] @ ''HYBRID''
              @ [CHR 0x27] @ '', ''
              @ ''valid options are MOORE, VON_NEUMANN, DUBIN, REEDS_SHEPP, BALKCOM_MASON.''),
        INFO ''maximum iteration selected as <= 0, disabling maximum iterations.'',
        INFO (''Configured plugin GridBased of type SmacPlanner with ''
             @ ''travel cost %.2f, tolerance %.2f, maximum iterations %i, ''
             @ ''max on approach iterations %i, and %s. Using motion model: %s.'')]"
    by (simp add: configure_def unknown_model_parameters_def default_parameters_def
      unit_costmap_def Let_def fdiv_def INT_MAX_def fromString_def word_sle_eq word_sless_alt)
  have thrown: "initMotionModel UNKNOWN_MODEL 10 1 1 =
       Inl (runtime_error
          (''Invalid motion model for SE2 node. Please select between''
           @ '' Dubin (Ackermann forward only),''
           @ '' Reeds-Shepp (Ackermann forward and back),''
           @ '' or Balkcom-Mason (Differential drive and omnidirectional) models.''))"
    by (simp add: initMotionModel_def)
  from configure_unknown_model_warns [OF unk scale] unk scale logs thrown
  show ?thesis by blast
qed

end
